theory Spec2Isabelle
  imports Complex_Main "HOL-Library.Word"
begin

section \<open>Intervals and boxes\<close>

text \<open>
  The engine works on intervals of doubles supplied by the external interval library.
  Endpoints are idealised as reals here (no outward rounding, no infinite endpoints);
  the empty interval is a value of its own, as the library's \<open>EMPTY_SET\<close>.
\<close>

datatype Interval = EMPTY_SET | Iv (lb: real) (ub: real)

text \<open>The library's constructor from two bounds: a reversed pair is the empty set.\<close>

definition mk_interval :: "real \<Rightarrow> real \<Rightarrow> Interval" where
  "mk_interval a b = (if b < a then EMPTY_SET else Iv a b)"

fun is_empty :: "Interval \<Rightarrow> bool" where
  "is_empty EMPTY_SET = True"
| "is_empty (Iv l u) = False"

text \<open>The diameter; by the library's convention it is 0 for the empty interval.\<close>

fun diam :: "Interval \<Rightarrow> real" where
  "diam EMPTY_SET = 0"
| "diam (Iv l u) = u - l"

fun mid :: "Interval \<Rightarrow> real" where
  "mid EMPTY_SET = 0"
| "mid (Iv l u) = (l + u) / 2"

text \<open>
  An interval is bisectable when its midpoint lies strictly between its bounds; it is
  degenerated when it is empty or a single point.
\<close>

fun is_bisectable :: "Interval \<Rightarrow> bool" where
  "is_bisectable EMPTY_SET = False"
| "is_bisectable (Iv l u) = (l < (l + u) / 2 \<and> (l + u) / 2 < u)"

fun is_degenerated :: "Interval \<Rightarrow> bool" where
  "is_degenerated EMPTY_SET = True"
| "is_degenerated (Iv l u) = (l = u)"

text \<open>Bisection of an interval at its midpoint (ratio 0.5).\<close>

fun bisect_interval :: "Interval \<Rightarrow> Interval \<times> Interval" where
  "bisect_interval EMPTY_SET = (EMPTY_SET, EMPTY_SET)"
| "bisect_interval (Iv l u) = (Iv l ((l + u) / 2), Iv ((l + u) / 2) u)"

text \<open>
  A variable is identified by its integer id. A box is a vector of intervals together
  with the variables of its dimensions, in order.
\<close>

type_synonym Variable = nat

record Box =
  variables :: "Variable list"
  intervals :: "Interval list"

definition size_box :: "Box \<Rightarrow> nat" where
  "size_box b = length (intervals b)"

text \<open>\<open>box[i]\<close>, for an index inside the box.\<close>

definition box_at :: "Box \<Rightarrow> nat \<Rightarrow> Interval" where
  "box_at b i = intervals b ! i"

text \<open>\<open>box[i] = iv\<close>.\<close>

definition box_set :: "Box \<Rightarrow> nat \<Rightarrow> Interval \<Rightarrow> Box" where
  "box_set b i iv = b\<lparr>intervals := (intervals b)[i := iv]\<rparr>"

text \<open>
  \<open>box.index(v)\<close>: the dimension of a variable of the box. The source looks the
  variable up in a table and expects it to be there; for a variable that is not a
  variable of the box this model returns the size of the box.
\<close>

fun index_of :: "Variable list \<Rightarrow> Variable \<Rightarrow> nat" where
  "index_of [] v = 0"
| "index_of (x # xs) v = (if x = v then 0 else Suc (index_of xs v))"

definition index :: "Box \<Rightarrow> Variable \<Rightarrow> nat" where
  "index b v = index_of (variables b) v"

text \<open>\<open>box[v]\<close>.\<close>

definition box_at_var :: "Box \<Rightarrow> Variable \<Rightarrow> Interval" where
  "box_at_var b v = box_at b (index b v)"

text \<open>
  A box is empty when one of its intervals is; \<open>set_empty\<close> empties every dimension.
\<close>

definition empty_box :: "Box \<Rightarrow> bool" where
  "empty_box b = (\<exists>iv \<in> set (intervals b). is_empty iv)"

definition set_empty :: "Box \<Rightarrow> Box" where
  "set_empty b = b\<lparr>intervals := map (\<lambda>_. EMPTY_SET) (intervals b)\<rparr>"

text \<open>
  Modelled from the spec: \<open>Box::bisect\<close>, whose code is not among the source files.
  \<open>bisect(i) \<rightarrow> (left, right)\<close> splits dimension \<open>i\<close> at its midpoint and leaves the
  other dimensions as they are.
\<close>

definition bisect :: "Box \<Rightarrow> nat \<Rightarrow> Box \<times> Box" where
  "bisect b i =
     (let (l, r) = bisect_interval (box_at b i) in (box_set b i l, box_set b i r))"

section \<open>Seeding the parallel engine: \<open>FindMaxDiamIdx\<close>, \<open>DoubleUp\<close>, \<open>FillUp\<close>\<close>

text \<open>
  \<open>FindMaxDiamIdx\<close> scans the dimensions in order and keeps the first one of largest
  diameter among the bisectable ones of positive diameter; -1 when there is none.
\<close>

definition FindMaxDiamIdx_step :: "Box \<Rightarrow> real \<times> int \<Rightarrow> nat \<Rightarrow> real \<times> int" where
  "FindMaxDiamIdx_step box acc i =
     (let iv_i = box_at box i; diam_i = diam iv_i in
      if diam_i > fst acc \<and> is_bisectable iv_i then (diam_i, int i) else acc)"

definition FindMaxDiamIdx :: "Box \<Rightarrow> int" where
  "FindMaxDiamIdx box = snd (foldl (FindMaxDiamIdx_step box) (0, -1) [0..<size_box box])"

text \<open>
  The first loop of \<open>DoubleUp\<close>: every box of the prefix is replaced by its two halves
  when \<open>FindMaxDiamIdx\<close> finds a dimension, and is not copied to the result otherwise
  (the \<open>if\<close> has no \<open>else\<close>).
\<close>

fun DoubleUp_bisect :: "Box list \<Rightarrow> Box list" where
  "DoubleUp_bisect [] = []"
| "DoubleUp_bisect (box # boxes) =
     (let max_diam_idx = FindMaxDiamIdx box in
      if max_diam_idx \<ge> 0
      then (let bisect_result = bisect box (nat max_diam_idx)
            in fst bisect_result # snd bisect_result # DoubleUp_bisect boxes)
      else DoubleUp_bisect boxes)"

text \<open>
  \<open>DoubleUp(boxes, n)\<close>. The first loop runs while \<open>i < n - boxes.size()\<close> and
  \<open>i < boxes.size()\<close>, the difference taken in the 64-bit unsigned type of the size;
  the second loop copies the remaining boxes. The source asserts (in debug builds)
  \<open>boxes.size() \<le> n\<close>.
\<close>

definition DoubleUp :: "Box list \<Rightarrow> int \<Rightarrow> Box list" where
  "DoubleUp boxes n =
     (let k = min (nat ((n - int (length boxes)) mod 2 ^ 64)) (length boxes)
      in DoubleUp_bisect (take k boxes) @ drop k boxes)"

text \<open>
  \<open>FillUp(box, n)\<close>: the loop doubles the working list until it has \<open>n\<close> boxes or a
  round leaves its length unchanged. The loop is run on fuel; \<open>None\<close> is "no result
  within the fuel". The comparison is against \<open>static_cast<unsigned>(n)\<close>.
\<close>

fun FillUp_loop :: "nat \<Rightarrow> Box list \<Rightarrow> int \<Rightarrow> Box list option" where
  "FillUp_loop 0 ret n = None"
| "FillUp_loop (Suc fuel) ret n =
     (if int (length ret) < n mod 2 ^ 32
      then (let new_ones = DoubleUp ret n in
            if length new_ones = length ret then Some ret
            else FillUp_loop fuel new_ones n)
      else Some ret)"

definition FillUp :: "nat \<Rightarrow> Box \<Rightarrow> int \<Rightarrow> Box list option" where
  "FillUp fuel box n = FillUp_loop fuel [box] n"

section \<open>Formula evaluators and contractor status\<close>

datatype ResultType = UNSAT | VALID | UNKNOWN

record FormulaEvaluationResult =
  type :: ResultType
  evaluation :: Interval

text \<open>
  A formula evaluator holds its formula, the free variables of the formula, and the
  evaluation itself (its call operator), a function of the box. Formulas are kept
  abstract (the type parameter).
\<close>

record 'f FormulaEvaluator =
  formula :: 'f
  fe_variables :: "Variable list"
  evaluate :: "Box \<Rightarrow> FormulaEvaluationResult"

text \<open>A bitset of dimensions (\<open>ibex::BitSet\<close>) is a set of indices.\<close>

type_synonym BitSet = "nat set"

record 'f ContractorStatus =
  box :: Box
  branching_point :: int
  cs_output :: BitSet
  used_constraints :: "'f set"

text \<open>
  Modelled from the spec: \<open>ContractorStatus::AddUsedConstraint\<close>, declared in a header
  that is not among the source files. It adds the formula (or each formula of a list)
  to the set of used constraints.
\<close>

definition AddUsedConstraint :: "'f ContractorStatus \<Rightarrow> 'f \<Rightarrow> 'f ContractorStatus" where
  "AddUsedConstraint cs f = cs\<lparr>used_constraints := insert f (used_constraints cs)\<rparr>"

definition AddUsedConstraints :: "'f ContractorStatus \<Rightarrow> 'f list \<Rightarrow> 'f ContractorStatus" where
  "AddUsedConstraints cs fs = foldl AddUsedConstraint cs fs"

datatype BranchingStrategy = MaxDiam | GradientDescent

record Config =
  precision :: real
  number_of_jobs :: int
  stack_left_box_first :: bool
  branching_strategy :: BranchingStrategy

section \<open>\<open>Icp::EvaluateBox\<close>\<close>

text \<open>
  The inner loop of the \<open>UNKNOWN\<close> case: the index of every variable of the evaluator
  whose interval in the box is bisectable is added to the candidates.
\<close>

definition add_bisectable :: "Box \<Rightarrow> BitSet \<Rightarrow> Variable \<Rightarrow> BitSet" where
  "add_bisectable b branching_candidates v =
     (if is_bisectable (box_at_var b v) then insert (index b v) branching_candidates
      else branching_candidates)"

text \<open>
  The loop over the evaluators, with the candidates collected so far. \<open>UNSAT\<close> empties
  the box of the status, records the formula and returns no bitset at once; \<open>VALID\<close>
  goes on to the next evaluator; \<open>UNKNOWN\<close> adds candidates when the diameter of the
  evaluation exceeds the precision.
\<close>

fun EvaluateBox_loop ::
  "real \<Rightarrow> 'f FormulaEvaluator list \<Rightarrow> Box \<Rightarrow> 'f ContractorStatus \<Rightarrow> BitSet
   \<Rightarrow> BitSet option \<times> 'f ContractorStatus" where
  "EvaluateBox_loop prec [] b cs branching_candidates = (Some branching_candidates, cs)"
| "EvaluateBox_loop prec (formula_evaluator # rest) b cs branching_candidates =
     (let result = evaluate formula_evaluator b in
      case type result of
        UNSAT \<Rightarrow>
          (None, AddUsedConstraint (cs\<lparr>box := set_empty (box cs)\<rparr>) (formula formula_evaluator))
      | VALID \<Rightarrow> EvaluateBox_loop prec rest b cs branching_candidates
      | UNKNOWN \<Rightarrow>
          (if diam (evaluation result) > prec
           then EvaluateBox_loop prec rest b cs
                  (foldl (add_bisectable b) branching_candidates (fe_variables formula_evaluator))
           else EvaluateBox_loop prec rest b cs branching_candidates))"

definition EvaluateBox ::
  "Config \<Rightarrow> 'f FormulaEvaluator list \<Rightarrow> Box \<Rightarrow> 'f ContractorStatus
   \<Rightarrow> BitSet option \<times> 'f ContractorStatus" where
  "EvaluateBox cfg fes b cs = EvaluateBox_loop (precision cfg) fes b cs {}"

text \<open>
  The candidates as the specification describes them: the box-index of every variable
  \<open>v\<close> such that some evaluator reports \<open>UNKNOWN\<close> on the box with a diameter strictly
  above the precision, \<open>v\<close> is a free variable of that evaluator, and the interval of
  \<open>v\<close> in the box is bisectable.
\<close>

definition candidates_of :: "real \<Rightarrow> 'f FormulaEvaluator list \<Rightarrow> Box \<Rightarrow> BitSet" where
  "candidates_of prec fes b =
     {index b v | fe v. fe \<in> set fes \<and> type (evaluate fe b) = UNKNOWN \<and>
        diam (evaluation (evaluate fe b)) > prec \<and> v \<in> set (fe_variables fe) \<and>
        is_bisectable (box_at_var b v)}"

section \<open>Branching\<close>

text \<open>
  The stack of the sequential engine is a vector of pairs (box, branching point); the
  list below holds it with the back of the vector at the head.
\<close>

type_synonym BoxStack = "(Box \<times> int) list"

text \<open>
  Modelled from the spec: \<open>FindMaxDiam\<close>, declared in a header that is not among the
  source files. Among the candidate dimensions it finds one of largest diameter, the
  smallest index first, as \<open>FindMaxDiamIdx\<close> of the parallel engine does over all
  dimensions; the index is -1 when no candidate can be bisected.
\<close>

definition FindMaxDiam_step :: "Box \<Rightarrow> BitSet \<Rightarrow> real \<times> int \<Rightarrow> nat \<Rightarrow> real \<times> int" where
  "FindMaxDiam_step b active_set acc i =
     (let iv_i = box_at b i; diam_i = diam iv_i in
      if i \<in> active_set \<and> diam_i > fst acc \<and> is_bisectable iv_i then (diam_i, int i)
      else acc)"

definition FindMaxDiam :: "Box \<Rightarrow> BitSet \<Rightarrow> real \<times> int" where
  "FindMaxDiam b active_set =
     foldl (FindMaxDiam_step b active_set) (0, -1) [0..<size_box b]"

text \<open>
  Modelled from the spec: \<open>BranchMaxDiam\<close>, declared in a header that is not among the
  source files. It picks the branching point among the candidates; when there is one it
  bisects the box there and pushes both halves with the branching point, the left one
  first when \<open>stack_left_box_first\<close> holds, and returns false; when no candidate can be
  bisected it pushes nothing and returns true (the caller then reports delta-SAT).
\<close>

definition BranchMaxDiam :: "Box \<Rightarrow> BitSet \<Rightarrow> bool \<Rightarrow> BoxStack \<Rightarrow> bool \<times> BoxStack" where
  "BranchMaxDiam b active_set left_box_first stack =
     (let branching_point = snd (FindMaxDiam b active_set) in
      if branching_point \<ge> 0
      then (let boxes = bisect b (nat branching_point) in
            if left_box_first
            then (False, (snd boxes, branching_point) # (fst boxes, branching_point) # stack)
            else (False, (fst boxes, branching_point) # (snd boxes, branching_point) # stack))
      else (True, stack))"

section \<open>The sequential engine: \<open>Icp::CheckSat\<close>\<close>

text \<open>
  What \<open>CheckSat\<close> is given besides the status: the configuration, the contractor (its
  \<open>Prune\<close>, a function of the status), the formula evaluators, and the two branching
  routines, whose code is not among the source files. \<open>BranchMaxDiam\<close> gets the box, the
  candidates, the stacking policy and the stack, and returns its boolean and the stack;
  \<open>BranchGradientDescent\<close> gets the candidates, the current box and the stack (the
  error functions of the formulas and the configuration are fixed for a call of
  \<open>CheckSat\<close>), and returns its boolean, the current box and the stack.
\<close>

record 'f Icp =
  config :: Config
  contractor :: "'f ContractorStatus \<Rightarrow> 'f ContractorStatus"
  formula_evaluators :: "'f FormulaEvaluator list"
  branch_max_diam :: "Box \<Rightarrow> BitSet \<Rightarrow> bool \<Rightarrow> BoxStack \<Rightarrow> bool \<times> BoxStack"
  branch_gradient_descent :: "BitSet \<Rightarrow> Box \<Rightarrow> BoxStack \<Rightarrow> bool \<times> Box \<times> BoxStack"

text \<open>
  The variables of the loop: the stack, the status (\<open>current_box\<close> and
  \<open>current_branching_point\<close> are references into it), the member
  \<open>stack_left_box_first_\<close> (here \<open>icp_stack_left_box_first\<close>) and the two
  counters of the statistics.
\<close>

record 'f IcpState =
  stack :: BoxStack
  status :: "'f ContractorStatus"
  icp_stack_left_box_first :: bool
  num_prune :: nat
  num_branch :: nat

text \<open>Steps 1 and 2 of the loop: pop the top of the stack into the status and prune.\<close>

definition pop_and_prune :: "'f Icp \<Rightarrow> 'f IcpState \<Rightarrow> 'f IcpState" where
  "pop_and_prune icp s =
     (case stack s of
        [] \<Rightarrow> s
      | (b, bp) # rest \<Rightarrow>
          s\<lparr>stack := rest,
             status := contractor icp ((status s)\<lparr>box := b, branching_point := bp\<rparr>),
             num_prune := num_prune s + 1\<rparr>)"

text \<open>
  Step 3.2.3, the \<open>switch\<close> on the branching strategy, for the candidates \<open>bc\<close>. The
  result is whether \<open>CheckSat\<close> returns true here, and the state.
\<close>

definition branch_step :: "'f Icp \<Rightarrow> BitSet \<Rightarrow> 'f IcpState \<Rightarrow> bool \<times> 'f IcpState" where
  "branch_step icp bc s =
     (let s1 = s\<lparr>num_branch := num_branch s + 1\<rparr> in
      case branching_strategy (config icp) of
        MaxDiam \<Rightarrow>
          (let (r, stack') =
                 branch_max_diam icp (box (status s1)) bc (icp_stack_left_box_first s1) (stack s1)
           in if r then (True, s1\<lparr>stack := stack'\<rparr>)
              else (False, s1\<lparr>stack := stack',
                               icp_stack_left_box_first := \<not> icp_stack_left_box_first s1\<rparr>))
      | GradientDescent \<Rightarrow>
          (let (r, current_box, stack') =
                 branch_gradient_descent icp bc (box (status s1)) (stack s1)
           in (r, s1\<lparr>stack := stack', status := (status s1)\<lparr>box := current_box\<rparr>\<rparr>)))"

text \<open>
  One pass through the body of the loop, entered with a non-empty stack. The result is
  whether \<open>CheckSat\<close> returns true in this pass, and the state the pass leaves; when
  the boolean is false the loop goes on from that state.
\<close>

definition CheckSat_body :: "'f Icp \<Rightarrow> 'f IcpState \<Rightarrow> bool \<times> 'f IcpState" where
  "CheckSat_body icp s =
     (let s2 = pop_and_prune icp s in
      if empty_box (box (status s2)) then (False, s2)
      else (let (branching_candidates, cs') =
                  EvaluateBox (config icp) (formula_evaluators icp) (box (status s2)) (status s2);
                s3 = s2\<lparr>status := cs'\<rparr>
            in case branching_candidates of
                 None \<Rightarrow> (False, s3)
               | Some bc \<Rightarrow> if bc = {} then (True, s3) else branch_step icp bc s3))"


text \<open>The state at the first loop head: the stack holds the box of the status and -1.\<close>

definition CheckSat_init :: "'f Icp \<Rightarrow> 'f ContractorStatus \<Rightarrow> 'f IcpState" where
  "CheckSat_init icp cs =
     \<lparr>stack = [(box cs, -1)], status = cs,
      icp_stack_left_box_first = stack_left_box_first (config icp),
      num_prune = 0, num_branch = 0\<rparr>"


text \<open>
  The state at the \<open>k\<close>-th loop head of a run that has not returned before, as the body
  of the loop leaves it.
\<close>

definition loop_head :: "'f Icp \<Rightarrow> nat \<Rightarrow> 'f IcpState \<Rightarrow> 'f IcpState" where
  "loop_head icp k s = ((\<lambda>s. snd (CheckSat_body icp s)) ^^ k) s"

definition evaluation_of :: "'f Icp \<Rightarrow> 'f IcpState \<Rightarrow> BitSet option" where
  "evaluation_of icp s =
     (let s2 = pop_and_prune icp s in
      fst (EvaluateBox (config icp) (formula_evaluators icp) (box (status s2)) (status s2)))"

definition branching_fails :: "'f Icp \<Rightarrow> BitSet \<Rightarrow> Box \<Rightarrow> bool \<Rightarrow> BoxStack \<Rightarrow> bool" where
  "branching_fails icp bc b left_box_first st =
     (case branching_strategy (config icp) of
        MaxDiam \<Rightarrow> fst (branch_max_diam icp b bc left_box_first st)
      | GradientDescent \<Rightarrow> fst (branch_gradient_descent icp bc b st))"

text \<open>
  A pass through the body is a branching step when it reaches step 3.2.3 with a
  non-empty set of candidates and the branching routine does not report failure.
\<close>

definition branching_at :: "'f Icp \<Rightarrow> 'f IcpState \<Rightarrow> bool" where
  "branching_at icp s =
     (stack s \<noteq> [] \<and> \<not> empty_box (box (status (pop_and_prune icp s))) \<and>
      (\<exists>bc. evaluation_of icp s = Some bc \<and> bc \<noteq> {} \<and>
         \<not> branching_fails icp bc (box (status (pop_and_prune icp s)))
             (icp_stack_left_box_first s) (stack (pop_and_prune icp s))))"

section \<open>The passes of a run of \<open>Icp::CheckSat\<close>, step by step\<close>











section \<open>Example problems\<close>

text \<open>
  A one-dimensional problem for the sequential engine: the box \<open>x \<in> [0, 4]\<close>, one
  constraint whose evaluation on a box is \<open>UNKNOWN\<close> with the interval of \<open>x\<close> itself,
  precision 3, the identity contractor. The first pass branches; the second finds the
  half it pops delta-satisfying.
\<close>

definition ex_box :: Box where
  "ex_box = \<lparr>variables = [0], intervals = [Iv 0 4]\<rparr>"

definition ex_status :: "nat ContractorStatus" where
  "ex_status = \<lparr>box = ex_box, branching_point = -1, cs_output = {}, used_constraints = {}\<rparr>"

definition ex_unknown :: "nat FormulaEvaluator" where
  "ex_unknown =
     \<lparr>formula = 7, fe_variables = [0],
      evaluate = (\<lambda>b. \<lparr>type = UNKNOWN, evaluation = box_at b 0\<rparr>)\<rparr>"

definition ex_config :: "BranchingStrategy \<Rightarrow> Config" where
  "ex_config strategy =
     \<lparr>precision = 3, number_of_jobs = 1, stack_left_box_first = False,
      branching_strategy = strategy\<rparr>"

text \<open>
  The gradient-descent routine of the examples falls back to the maximum-diameter
  choice, pushing the left half first, and leaves the current box as it is.
\<close>

definition ex_branch_gd :: "BitSet \<Rightarrow> Box \<Rightarrow> BoxStack \<Rightarrow> bool \<times> Box \<times> BoxStack" where
  "ex_branch_gd bc b st = (case BranchMaxDiam b bc True st of (r, st') \<Rightarrow> (r, b, st'))"

definition ex_icp :: "BranchingStrategy \<Rightarrow> nat Icp" where
  "ex_icp strategy =
     \<lparr>config = ex_config strategy, contractor = (\<lambda>cs. cs),
      formula_evaluators = [ex_unknown],
      branch_max_diam = BranchMaxDiam, branch_gradient_descent = ex_branch_gd\<rparr>"

text \<open>
  The same problem with a gradient-descent routine that finds nothing to bisect, and
  with a second constraint that is \<open>UNSAT\<close> on every box whose \<open>x\<close> stays below 5.
\<close>

definition ex_icp_degenerate :: "nat Icp" where
  "ex_icp_degenerate =
     (ex_icp GradientDescent)\<lparr>branch_gradient_descent := (\<lambda>bc b st. (True, b, st))\<rparr>"

definition ex_unsat :: "nat FormulaEvaluator" where
  "ex_unsat =
     \<lparr>formula = 8, fe_variables = [0],
      evaluate = (\<lambda>b. \<lparr>type = (if ub (box_at b 0) < 5 then UNSAT else VALID),
                        evaluation = box_at b 0\<rparr>)\<rparr>"

definition ex_icp_unsat :: "nat Icp" where
  "ex_icp_unsat = (ex_icp MaxDiam)\<lparr>formula_evaluators := [ex_unknown, ex_unsat]\<rparr>"

section \<open>The parallel engine: \<open>ParallelBranch\<close>, \<open>Worker\<close>, \<open>IcpParallel::CheckSat\<close>\<close>

text \<open>
  What the workers share: the stack of boxes (its top at the head of the list), the two
  atomic integers, and the process-wide flag \<open>g_interrupted\<close> that a signal handler
  sets.
\<close>

record Shared =
  global_stack :: "Box list"
  found_delta_sat :: int
  number_of_boxes :: int
  g_interrupted :: bool

text \<open>
  The variables of one worker: its status (\<open>current_box\<close> is a reference into it), its
  own \<open>stack_left_box_first\<close> and \<open>need_to_pop\<close>.
\<close>

record 'f WorkerState =
  worker_status :: "'f ContractorStatus"
  worker_left_box_first :: bool
  need_to_pop :: bool

text \<open>The \<open>std::runtime_error\<close> a worker throws when it sees the flag.\<close>

datatype error = KeyboardInterrupt

text \<open>
  The parallel engine is an \<open>Icp\<close> with, here, two more things fixed: whether the build
  defines the macro \<open>DREAL_CHECK_INTERRUPT\<close> (only the build of the Python package
  does), and \<open>ContractorStatus::InplaceJoin\<close>, declared in a header that is not among
  the source files.
\<close>

record 'f IcpParallel = "'f Icp" +
  check_interrupt :: bool
  InplaceJoin :: "'f ContractorStatus \<Rightarrow> 'f ContractorStatus \<Rightarrow> 'f ContractorStatus"

text \<open>
  \<open>ParallelBranch\<close>: when a branching point is found the box is bisected, the counter
  of boxes is incremented, one half (the left one when \<open>stack_left_box_first\<close> holds)
  is pushed on the shared stack and the other replaces the box; the result is true.
  Otherwise nothing changes and the result is false. The results are the boolean, the
  box, the shared stack and the counter.
\<close>

definition ParallelBranch ::
  "BitSet \<Rightarrow> bool \<Rightarrow> int \<Rightarrow> Box \<Rightarrow> Box list \<Rightarrow> int \<Rightarrow> bool \<times> Box \<times> Box list \<times> int" where
  "ParallelBranch bitset left_box_first jobs b gs nb =
     (let branching_point = snd (FindMaxDiam b bitset) in
      if branching_point \<ge> 0
      then (let boxes = bisect b (nat branching_point);
                box1 = (if left_box_first then fst boxes else snd boxes);
                box2 = (if left_box_first then snd boxes else fst boxes)
            in (True, box2, box1 # gs, nb + 1))
      else (False, b, gs, nb))"

text \<open>
  One pass through the body of the loop of \<open>Worker\<close>, run without interference from
  the other workers. The result is the error thrown, or whether the worker returns in
  this pass together with the shared and the local state the pass leaves.
\<close>

definition Worker_evaluate ::
  "('f, 'z) IcpParallel_scheme \<Rightarrow> int \<Rightarrow> Shared \<Rightarrow> 'f WorkerState
   \<Rightarrow> bool \<times> Shared \<times> 'f WorkerState" where
  "Worker_evaluate p wid sh w =
     (let (evaluation_result, cs') =
            EvaluateBox (config p) (formula_evaluators p)
              (box (worker_status w)) (worker_status w);
          w1 = w\<lparr>worker_status := cs'\<rparr>
      in case evaluation_result of
           None \<Rightarrow> (False, sh\<lparr>number_of_boxes := number_of_boxes sh - 1\<rparr>, w1)
         | Some bc \<Rightarrow>
             if bc = {} then (True, sh\<lparr>found_delta_sat := wid\<rparr>, w1)
             else (let (r, b', gs', nb') =
                         ParallelBranch bc (worker_left_box_first w1)
                           (number_of_jobs (config p)) (box cs') (global_stack sh)
                           (number_of_boxes sh)
                   in if \<not> r then (True, sh\<lparr>found_delta_sat := wid\<rparr>, w1)
                      else (False, sh\<lparr>global_stack := gs', number_of_boxes := nb'\<rparr>,
                            w1\<lparr>worker_status := cs'\<lparr>box := b'\<rparr>, need_to_pop := False,
                               worker_left_box_first := \<not> worker_left_box_first w1\<rparr>)))"

definition Worker_prune ::
  "('f, 'z) IcpParallel_scheme \<Rightarrow> int \<Rightarrow> Shared \<Rightarrow> 'f WorkerState
   \<Rightarrow> bool \<times> Shared \<times> 'f WorkerState" where
  "Worker_prune p wid sh w =
     (let w1 = w\<lparr>need_to_pop := True, worker_status := contractor p (worker_status w)\<rparr> in
      if empty_box (box (worker_status w1))
      then (False, sh\<lparr>number_of_boxes := number_of_boxes sh - 1\<rparr>, w1)
      else Worker_evaluate p wid sh w1)"

definition Worker_pass ::
  "('f, 'z) IcpParallel_scheme \<Rightarrow> int \<Rightarrow> Shared \<Rightarrow> 'f WorkerState
   \<Rightarrow> error + bool \<times> Shared \<times> 'f WorkerState" where
  "Worker_pass p wid sh w =
     (if check_interrupt p \<and> g_interrupted sh then Inl KeyboardInterrupt
      else if need_to_pop w
      then (case global_stack sh of
              [] \<Rightarrow> Inr (False, sh, w)
            | b # rest \<Rightarrow>
                Inr (Worker_prune p wid (sh\<lparr>global_stack := rest\<rparr>)
                       (w\<lparr>worker_status := (worker_status w)\<lparr>box := b\<rparr>\<rparr>)))
      else Inr (Worker_prune p wid sh w))"

text \<open>
  The loop of one worker running alone, on fuel: \<open>None\<close> is "no result within the
  fuel", \<open>Some (Inl e)\<close> the error thrown, \<open>Some (Inr (sh, cs))\<close> the shared state and
  the status when the worker returns.
\<close>

fun Worker_loop ::
  "nat \<Rightarrow> ('f, 'z) IcpParallel_scheme \<Rightarrow> int \<Rightarrow> Shared \<Rightarrow> 'f WorkerState
   \<Rightarrow> (error + Shared \<times> 'f ContractorStatus) option" where
  "Worker_loop 0 p wid sh w = None"
| "Worker_loop (Suc fuel) p wid sh w =
     (if found_delta_sat sh = -1 \<and> number_of_boxes sh > 0
      then (case Worker_pass p wid sh w of
              Inl e \<Rightarrow> Some (Inl e)
            | Inr (True, sh', w') \<Rightarrow> Some (Inr (sh', worker_status w'))
            | Inr (False, sh', w') \<Rightarrow> Worker_loop fuel p wid sh' w')
      else Some (Inr (sh, worker_status w)))"

definition Worker ::
  "nat \<Rightarrow> ('f, 'z) IcpParallel_scheme \<Rightarrow> int \<Rightarrow> Shared \<Rightarrow> 'f ContractorStatus
   \<Rightarrow> (error + Shared \<times> 'f ContractorStatus) option" where
  "Worker fuel p wid sh cs =
     Worker_loop fuel p wid sh
       \<lparr>worker_status = cs, worker_left_box_first = stack_left_box_first (config p),
        need_to_pop = True\<rparr>"

text \<open>
  What the run of all the workers leaves when every one of them has ended: for each
  worker, by its id, the error it threw if it threw one; the value of
  \<open>found_delta_sat\<close>; and the vector of the statuses. The worker with the last id is
  the one run by the calling thread.
\<close>

record 'f WorkersOutcome =
  thrown :: "error option list"
  found :: int
  status_vector :: "'f ContractorStatus list"

text \<open>
  \<open>IcpParallel::CheckSat\<close>. The run of the workers is a parameter: a function from
  the shared state and the status vector at their start to what they leave, \<open>None\<close>
  when they do not all end. An error thrown by the worker of the calling thread leaves
  \<open>CheckSat\<close> at once; the barrier then rethrows the first error of a pooled worker.
  The result is \<open>None\<close> when the seeding or the workers give no result, the error
  thrown, or the boolean returned with the status of the caller.
\<close>

definition join_and_decide ::
  "('f, 'z) IcpParallel_scheme \<Rightarrow> 'f ContractorStatus \<Rightarrow> 'f WorkersOutcome
   \<Rightarrow> bool \<times> 'f ContractorStatus" where
  "join_and_decide p cs out =
     (let joined = foldl (InplaceJoin p) cs (status_vector out) in
      if found out \<ge> 0
      then (True, joined\<lparr>box := box (status_vector out ! nat (found out))\<rparr>)
      else (False, joined\<lparr>box := set_empty (box joined)\<rparr>))"

definition first_thrown :: "error option list \<Rightarrow> error option" where
  "first_thrown results = (case List.find (\<lambda>r. r \<noteq> None) results of Some r \<Rightarrow> r | None \<Rightarrow> None)"

text \<open>
  The shared state at the start of the workers: every seeded box pushed, the counter set
  to their number.
\<close>

definition seeded :: "Box list \<Rightarrow> bool \<Rightarrow> Shared" where
  "seeded boxes interrupted =
     \<lparr>global_stack = rev boxes, found_delta_sat = -1,
      number_of_boxes = int (length boxes), g_interrupted = interrupted\<rparr>"

definition IcpParallel_CheckSat ::
  "nat \<Rightarrow> ('f, 'z) IcpParallel_scheme
   \<Rightarrow> (Shared \<Rightarrow> 'f ContractorStatus list \<Rightarrow> 'f WorkersOutcome option)
   \<Rightarrow> bool \<Rightarrow> 'f ContractorStatus \<Rightarrow> (error + bool \<times> 'f ContractorStatus) option" where
  "IcpParallel_CheckSat fuel p workers interrupted cs0 =
     (let jobs = number_of_jobs (config p);
          cs = contractor p cs0
      in if empty_box (box cs) then Some (Inr (False, cs))
         else (case FillUp fuel (box cs) jobs of
                 None \<Rightarrow> None
               | Some boxes \<Rightarrow>
                   (case workers (seeded boxes interrupted) (replicate (nat jobs) cs) of
                      None \<Rightarrow> None
                    | Some out \<Rightarrow>
                        (case thrown out ! (nat jobs - 1) of
                           Some e \<Rightarrow> Some (Inl e)
                         | None \<Rightarrow>
                             (case first_thrown (take (nat jobs - 1) (thrown out)) of
                                Some e \<Rightarrow> Some (Inl e)
                              | None \<Rightarrow> Some (Inr (join_and_decide p cs out)))))))"

text \<open>
  One run of the workers: the worker of the calling thread runs alone until it ends;
  the pooled workers run after it, one after the other.
\<close>

fun run_in_turn ::
  "nat \<Rightarrow> ('f, 'z) IcpParallel_scheme \<Rightarrow> nat list \<Rightarrow> Shared \<Rightarrow> 'f WorkersOutcome
   \<Rightarrow> 'f WorkersOutcome option" where
  "run_in_turn fuel p [] sh out = Some (out\<lparr>found := found_delta_sat sh\<rparr>)"
| "run_in_turn fuel p (i # ids) sh out =
     (case Worker fuel p (int i) sh (status_vector out ! i) of
        None \<Rightarrow> None
      | Some (Inl e) \<Rightarrow>
          run_in_turn fuel p ids sh (out\<lparr>thrown := (thrown out)[i := Some e]\<rparr>)
      | Some (Inr (sh', cs')) \<Rightarrow>
          run_in_turn fuel p ids sh' (out\<lparr>status_vector := (status_vector out)[i := cs']\<rparr>))"

definition main_first ::
  "nat \<Rightarrow> ('f, 'z) IcpParallel_scheme \<Rightarrow> Shared \<Rightarrow> 'f ContractorStatus list
   \<Rightarrow> 'f WorkersOutcome option" where
  "main_first fuel p sh statuses =
     (let n = length statuses in
      run_in_turn fuel p ((n - 1) # [0..<n - 1]) sh
        \<lparr>thrown = replicate n None, found = -1, status_vector = statuses\<rparr>)"

text \<open>
  The example problem for the parallel engine, with one job or more; the join of the
  examples unites the outputs and the used constraints.
\<close>

definition ex_join :: "nat ContractorStatus \<Rightarrow> nat ContractorStatus \<Rightarrow> nat ContractorStatus" where
  "ex_join cs cs_i =
     cs\<lparr>cs_output := cs_output cs \<union> cs_output cs_i,
        used_constraints := used_constraints cs \<union> used_constraints cs_i\<rparr>"

definition ex_parallel :: "int \<Rightarrow> bool \<Rightarrow> nat FormulaEvaluator list \<Rightarrow> nat IcpParallel" where
  "ex_parallel jobs chk fes =
     \<lparr>config = (ex_config MaxDiam)\<lparr>number_of_jobs := jobs\<rparr>, contractor = (\<lambda>cs. cs),
      formula_evaluators = fes,
      branch_max_diam = BranchMaxDiam, branch_gradient_descent = ex_branch_gd,
      check_interrupt = chk, InplaceJoin = ex_join\<rparr>"

text \<open>No worker threw.\<close>

definition no_error :: "int \<Rightarrow> 'f WorkersOutcome \<Rightarrow> bool" where
  "no_error jobs out = (\<forall>i < nat jobs. thrown out ! i = None)"

text \<open>A contractor that finds every box empty.\<close>

definition ex_refute :: "nat ContractorStatus \<Rightarrow> nat ContractorStatus" where
  "ex_refute cs = cs\<lparr>box := set_empty (box cs)\<rparr>"







section \<open>\<open>ContractorIbexPolytope::Prune\<close>\<close>

text \<open>
  The polytope contractor holds its formulas and the contractor of the external
  library, \<open>ctc_\<close>, whose \<open>contract\<close> narrows an interval vector in place; it is a
  function of the interval vector here. The constructor throws when the system it builds
  has no constraint, so an object that exists has its \<open>ctc_\<close>.
\<close>

record 'f ContractorIbexPolytope =
  polytope_formulas :: "'f list"
  ctc_contract :: "Interval list \<Rightarrow> Interval list"

text \<open>The loop that compares the old and the new interval of every dimension.\<close>

definition update_output ::
  "Interval list \<Rightarrow> Interval list \<Rightarrow> BitSet \<times> bool \<Rightarrow> nat \<Rightarrow> BitSet \<times> bool" where
  "update_output old_iv iv acc i =
     (if old_iv ! i \<noteq> iv ! i then (insert i (fst acc), True) else acc)"

text \<open>
  \<open>Prune\<close>: contract; when the vector is empty afterwards, every dimension of the box is
  added to the output and \<open>changed\<close> is set; otherwise the dimensions whose interval
  differs are added; the formulas are added to the used constraints when \<open>changed\<close>.
\<close>

definition ContractorIbexPolytope_Prune ::
  "'f ContractorIbexPolytope \<Rightarrow> 'f ContractorStatus \<Rightarrow> 'f ContractorStatus" where
  "ContractorIbexPolytope_Prune c cs =
     (let old_iv = intervals (box cs);
          iv = ctc_contract c old_iv;
          cs1 = cs\<lparr>box := (box cs)\<lparr>intervals := iv\<rparr>\<rparr>;
          (out, changed) =
            (if empty_box (box cs1) then (cs_output cs1 \<union> {0..<size_box (box cs1)}, True)
             else foldl (update_output old_iv iv) (cs_output cs1, False) [0..<length old_iv]);
          cs2 = cs1\<lparr>cs_output := out\<rparr>
      in if changed then AddUsedConstraints cs2 (polytope_formulas c) else cs2)"

text \<open>The dimensions whose interval a contraction changed.\<close>

definition changed_dimensions :: "Interval list \<Rightarrow> Interval list \<Rightarrow> BitSet" where
  "changed_dimensions old_iv iv = {i. i < length old_iv \<and> old_iv ! i \<noteq> iv ! i}"

text \<open>An empty one-dimensional box with a status around it, and a contractor that narrows nothing.\<close>

definition ex_empty_status :: "nat ContractorStatus" where
  "ex_empty_status =
     \<lparr>box = \<lparr>variables = [0], intervals = [EMPTY_SET]\<rparr>, branching_point = -1,
      cs_output = {}, used_constraints = {}\<rparr>"

definition ex_polytope :: "(Interval list \<Rightarrow> Interval list) \<Rightarrow> nat ContractorIbexPolytope" where
  "ex_polytope contract = \<lparr>polytope_formulas = [7, 8], ctc_contract = contract\<rparr>"

section \<open>\<open>ContractorIbexFwdbwdMt\<close>, the lazily populated version\<close>

text \<open>
  The single-thread contractor \<open>ContractorIbexFwdbwd\<close> is declared in a header that is
  not among the source files; what the multi-thread contractor uses of it is its input,
  its \<open>is_dummy\<close> and its \<open>Prune\<close>. Its constructor is a parameter of the operations
  below.
\<close>

record 'f ContractorIbexFwdbwd =
  fwdbwd_input :: BitSet
  fwdbwd_is_dummy :: bool
  fwdbwd_Prune :: "'f ContractorStatus \<Rightarrow> 'f ContractorStatus"

text \<open>
  The members of \<open>ContractorIbexFwdbwdMt\<close>: the formula, the configuration, the vector
  \<open>ctc_ready_\<close> and the vector \<open>ctcs_\<close> of owning pointers (\<open>None\<close> is the null pointer).
\<close>

record 'f ContractorIbexFwdbwdMt =
  mt_f :: 'f
  mt_config :: Config
  ctc_ready :: "int list"
  ctcs :: "'f ContractorIbexFwdbwd option list"

text \<open>
  How an operation can fail: a \<open>DREAL_ASSERT\<close> that does not hold (the macro checks in
  debug builds only), the use of a null pointer, an index outside a vector.
\<close>

datatype failure = AssertionViolation | NullPointer | OutOfRange

text \<open>The constructor: both vectors get \<open>number_of_jobs\<close> entries, 0 and null.\<close>

definition ContractorIbexFwdbwdMt_new :: "'f \<Rightarrow> Box \<Rightarrow> Config \<Rightarrow> 'f ContractorIbexFwdbwdMt" where
  "ContractorIbexFwdbwdMt_new f b cfg =
     \<lparr>mt_f = f, mt_config = cfg,
      ctc_ready = replicate (nat (number_of_jobs cfg)) 0,
      ctcs = replicate (nat (number_of_jobs cfg)) None\<rparr>"

text \<open>
  What the three accessors share: \<open>DREAL_ASSERT(ctc_ready_[0])\<close>, then the use of
  \<open>ctcs_[0]\<close>. The first argument tells whether the build is a debug build.
\<close>

definition slot_0 :: "bool \<Rightarrow> 'f ContractorIbexFwdbwdMt \<Rightarrow> failure + 'f ContractorIbexFwdbwd" where
  "slot_0 debug m =
     (if debug \<and> ctc_ready m = [] then Inl OutOfRange
      else if debug \<and> ctc_ready m ! 0 = 0 then Inl AssertionViolation
      else if ctcs m = [] then Inl OutOfRange
      else (case ctcs m ! 0 of None \<Rightarrow> Inl NullPointer | Some ctc \<Rightarrow> Inr ctc))"

definition input :: "bool \<Rightarrow> 'f ContractorIbexFwdbwdMt \<Rightarrow> failure + BitSet" where
  "input debug m = (case slot_0 debug m of Inl e \<Rightarrow> Inl e | Inr ctc \<Rightarrow> Inr (fwdbwd_input ctc))"

definition mutable_input :: "bool \<Rightarrow> 'f ContractorIbexFwdbwdMt \<Rightarrow> failure + BitSet" where
  "mutable_input debug m =
     (case slot_0 debug m of Inl e \<Rightarrow> Inl e | Inr ctc \<Rightarrow> Inr (fwdbwd_input ctc))"

definition is_dummy :: "bool \<Rightarrow> 'f ContractorIbexFwdbwdMt \<Rightarrow> failure + bool" where
  "is_dummy debug m =
     (case slot_0 debug m of Inl e \<Rightarrow> Inl e | Inr ctc \<Rightarrow> Inr (fwdbwd_is_dummy ctc))"

text \<open>
  \<open>GetCtcOrCreate\<close> on the thread with id \<open>tid\<close>: the pointer of the slot when the slot
  is ready; otherwise a new contractor is made, stored in the slot and the slot marked
  ready. The result is the pointer and the object.
\<close>

definition GetCtcOrCreate ::
  "('f \<Rightarrow> Box \<Rightarrow> Config \<Rightarrow> 'f ContractorIbexFwdbwd) \<Rightarrow> nat \<Rightarrow> Box \<Rightarrow> 'f ContractorIbexFwdbwdMt
   \<Rightarrow> failure + 'f ContractorIbexFwdbwd option \<times> 'f ContractorIbexFwdbwdMt" where
  "GetCtcOrCreate mk tid b m =
     (if tid \<ge> length (ctc_ready m) \<or> tid \<ge> length (ctcs m) then Inl OutOfRange
      else if ctc_ready m ! tid \<noteq> 0 then Inr (ctcs m ! tid, m)
      else (let ctc = mk (mt_f m) b (mt_config m)
            in Inr (Some ctc, m\<lparr>ctcs := (ctcs m)[tid := Some ctc],
                                  ctc_ready := (ctc_ready m)[tid := 1]\<rparr>)))"

text \<open>
  \<open>Prune\<close> on the thread with id \<open>tid\<close>: \<open>DREAL_ASSERT(!is_dummy())\<close>, which in a debug
  build calls \<open>is_dummy\<close> and so checks slot 0; then \<open>GetCtcOrCreate\<close>, the assertion
  that the pointer is not null, and the \<open>Prune\<close> of the contractor of the slot.
\<close>

definition ContractorIbexFwdbwdMt_Prune ::
  "bool \<Rightarrow> ('f \<Rightarrow> Box \<Rightarrow> Config \<Rightarrow> 'f ContractorIbexFwdbwd) \<Rightarrow> nat \<Rightarrow> 'f ContractorStatus
   \<Rightarrow> 'f ContractorIbexFwdbwdMt \<Rightarrow> failure + 'f ContractorStatus \<times> 'f ContractorIbexFwdbwdMt" where
  "ContractorIbexFwdbwdMt_Prune debug mk tid cs m =
     (case (if debug then is_dummy debug m else Inr False) of
        Inl e \<Rightarrow> Inl e
      | Inr True \<Rightarrow> Inl AssertionViolation
      | Inr False \<Rightarrow>
          (case GetCtcOrCreate mk tid (box cs) m of
             Inl e \<Rightarrow> Inl e
           | Inr (None, m') \<Rightarrow> Inl (if debug then AssertionViolation else NullPointer)
           | Inr (Some ctc, m') \<Rightarrow> Inr (fwdbwd_Prune ctc cs, m')))"

text \<open>
  A single-thread contractor for the examples: its input is the dimension of \<open>x\<close>, it
  is not a dummy and it narrows nothing.
\<close>

definition ex_make :: "nat \<Rightarrow> Box \<Rightarrow> Config \<Rightarrow> nat ContractorIbexFwdbwd" where
  "ex_make f b cfg = \<lparr>fwdbwd_input = {0}, fwdbwd_is_dummy = False, fwdbwd_Prune = (\<lambda>cs. cs)\<rparr>"

definition ex_mt :: "nat ContractorIbexFwdbwdMt" where
  "ex_mt = ContractorIbexFwdbwdMt_new 7 ex_box ((ex_config MaxDiam)\<lparr>number_of_jobs := 2\<rparr>)"

text \<open>The example object after a first \<open>Prune\<close> of a release build on the thread \<open>tid\<close>.\<close>

definition ex_mt_pruned :: "nat \<Rightarrow> nat ContractorIbexFwdbwdMt" where
  "ex_mt_pruned tid =
     (case ContractorIbexFwdbwdMt_Prune False ex_make tid ex_status ex_mt of
        Inr (cs, m) \<Rightarrow> m
      | Inl e \<Rightarrow> ex_mt)"

section \<open>Interval arithmetic\<close>

text \<open>
  Sum, difference and product of intervals, exact on the real endpoints; an operation on
  the empty interval gives the empty interval. A double \<open>c\<close> used as an interval is the
  point interval \<open>[c, c]\<close>.
\<close>

fun iv_add :: "Interval \<Rightarrow> Interval \<Rightarrow> Interval" where
  "iv_add (Iv a b) (Iv c d) = Iv (a + c) (b + d)"
| "iv_add _ _ = EMPTY_SET"

fun iv_sub :: "Interval \<Rightarrow> Interval \<Rightarrow> Interval" where
  "iv_sub (Iv a b) (Iv c d) = Iv (a - d) (b - c)"
| "iv_sub _ _ = EMPTY_SET"

fun iv_mul :: "Interval \<Rightarrow> Interval \<Rightarrow> Interval" where
  "iv_mul (Iv a b) (Iv c d) =
     Iv (min (min (a * c) (a * d)) (min (b * c) (b * d)))
        (max (max (a * c) (a * d)) (max (b * c) (b * d)))"
| "iv_mul _ _ = EMPTY_SET"

definition iv_point :: "real \<Rightarrow> Interval" where
  "iv_point c = Iv c c"

text \<open>
  The other functions of the interval library that the evaluator calls are parameters:
  division, the elementary functions, \<open>atan2\<close>, \<open>min\<close>, \<open>max\<close>, \<open>sqr\<close>, and the three
  powers: \<open>pow(x, n)\<close> with an integer \<open>n\<close>, \<open>pow(x, d)\<close> with a double \<open>d\<close>, and
  \<open>pow(x, y)\<close> with an interval \<open>y\<close>.
\<close>

record IntervalLibrary =
  iv_div :: "Interval \<Rightarrow> Interval \<Rightarrow> Interval"
  iv_log :: "Interval \<Rightarrow> Interval"
  iv_abs :: "Interval \<Rightarrow> Interval"
  iv_exp :: "Interval \<Rightarrow> Interval"
  iv_sqrt :: "Interval \<Rightarrow> Interval"
  iv_sqr :: "Interval \<Rightarrow> Interval"
  iv_pow_int :: "Interval \<Rightarrow> int \<Rightarrow> Interval"
  iv_pow_real :: "Interval \<Rightarrow> real \<Rightarrow> Interval"
  iv_pow :: "Interval \<Rightarrow> Interval \<Rightarrow> Interval"
  iv_sin :: "Interval \<Rightarrow> Interval"
  iv_cos :: "Interval \<Rightarrow> Interval"
  iv_tan :: "Interval \<Rightarrow> Interval"
  iv_asin :: "Interval \<Rightarrow> Interval"
  iv_acos :: "Interval \<Rightarrow> Interval"
  iv_atan :: "Interval \<Rightarrow> Interval"
  iv_atan2 :: "Interval \<Rightarrow> Interval \<Rightarrow> Interval"
  iv_sinh :: "Interval \<Rightarrow> Interval"
  iv_cosh :: "Interval \<Rightarrow> Interval"
  iv_tanh :: "Interval \<Rightarrow> Interval"
  iv_min :: "Interval \<Rightarrow> Interval \<Rightarrow> Interval"
  iv_max :: "Interval \<Rightarrow> Interval \<Rightarrow> Interval"

section \<open>Expressions and the interval evaluator\<close>

text \<open>
  The expressions, one constructor for each kind the evaluator visits. An addition holds
  its constant and its map from expression to coefficient, a multiplication its constant
  and its map from base to exponent; the maps are kept as lists in the order the
  evaluator walks them. The condition of an if-then-else is a formula, kept by an id;
  an uninterpreted function has a name and variables.
\<close>

datatype Expression =
    E_Variable Variable
  | E_Constant real
  | E_RealConstant real real
  | E_NaN
  | E_Addition real "(Expression \<times> real) list"
  | E_Multiplication real "(Expression \<times> Expression) list"
  | E_Division Expression Expression
  | E_Log Expression
  | E_Abs Expression
  | E_Exp Expression
  | E_Sqrt Expression
  | E_Pow Expression Expression
  | E_Sin Expression
  | E_Cos Expression
  | E_Tan Expression
  | E_Asin Expression
  | E_Acos Expression
  | E_Atan Expression
  | E_Atan2 Expression Expression
  | E_Sinh Expression
  | E_Cosh Expression
  | E_Tanh Expression
  | E_Min Expression Expression
  | E_Max Expression Expression
  | E_IfThenElse nat Expression Expression
  | E_UninterpretedFunction string "Variable list"

text \<open>
  What the evaluator and the differentiation throw: the two unsupported kinds, the NaN
  cell, and an expression that is not differentiable.
\<close>

datatype eval_error =
  IfThenElseNotSupported | UninterpretedFunctionNotSupported | NaNDetected | NotDifferentiable

text \<open>
  The type \<open>int\<close> of the program has 32 bits; \<open>numeric_limits<int>::lowest()\<close> and
  \<open>numeric_limits<int>::max()\<close> are its bounds.
\<close>

definition int_lowest :: int where
  "int_lowest = - 2147483648"

definition int_max :: int where
  "int_max = 2147483647"

text \<open>
  \<open>modf(v, &intpart)\<close> stores in \<open>intpart\<close> the value of \<open>v\<close> truncated toward zero and
  returns what is left of \<open>v\<close>, the fractional part; here the pair of both.
\<close>

definition modf :: "real \<Rightarrow> real \<times> real" where
  "modf v =
     (let intpart = (if v < 0 then of_int \<lceil>v\<rceil> else of_int \<lfloor>v\<rfloor>) in (v - intpart, intpart))"

text \<open>
  \<open>is_integer\<close>, as the repository defines it (the definition in
  \<open>symbolic_expression_cell.cc\<close>; the evaluator takes the function of this name from
  \<open>dreal/util/math.h\<close>): a value outside the range of \<open>int\<close> is not an integer for it;
  inside the range the fractional part has to be zero.
\<close>

definition is_integer :: "real \<Rightarrow> bool" where
  "is_integer v =
     (if \<not> (of_int int_lowest \<le> v \<and> v \<le> of_int int_max) then False
      else fst (modf v) = 0)"

text \<open>
  \<open>static_cast<int>(v)\<close>: the value truncated toward zero, as a 32-bit \<open>int\<close>, which
  \<open>sint\<close> reads. For a value whose truncation is outside the range of \<open>int\<close> the cast
  is undefined in the program; \<open>VisitPow\<close> casts only a point for which \<open>is_integer\<close>
  holds.
\<close>

definition static_cast_int :: "real \<Rightarrow> 32 word" where
  "static_cast_int v = word_of_int (if v < 0 then \<lceil>v\<rceil> else \<lfloor>v\<rfloor>)"

text \<open>
  The choice \<open>VisitPow\<close> makes once it has the interval of the base and the interval of
  the exponent.
\<close>

definition pow_of :: "IntervalLibrary \<Rightarrow> Interval \<Rightarrow> Interval \<Rightarrow> Interval" where
  "pow_of L first second =
     (if is_degenerated second \<and> \<not> is_empty second
      then (let point = lb second in
            if is_integer point
            then (if point = 2 then iv_sqr L first
                  else iv_pow_int L first (sint (static_cast_int point)))
            else iv_pow_real L first point)
      else iv_pow L first second)"

text \<open>Evaluation of one or two arguments, then a function of the library.\<close>

definition unary :: "(Interval \<Rightarrow> Interval) \<Rightarrow> eval_error + Interval \<Rightarrow> eval_error + Interval" where
  "unary f x = (case x of Inl e \<Rightarrow> Inl e | Inr i \<Rightarrow> Inr (f i))"

definition binary ::
  "(Interval \<Rightarrow> Interval \<Rightarrow> Interval) \<Rightarrow> eval_error + Interval \<Rightarrow> eval_error + Interval
   \<Rightarrow> eval_error + Interval" where
  "binary f x y =
     (case x of Inl e \<Rightarrow> Inl e
      | Inr i \<Rightarrow> (case y of Inl e \<Rightarrow> Inl e | Inr j \<Rightarrow> Inr (f i j)))"

text \<open>
  The evaluator. \<open>Visit\<close> dispatches on the kind of the expression; \<open>VisitPow\<close> with a
  base and an exponent is called for a power and for every factor of a multiplication.
  An addition starts from its constant and adds coefficient times term, a multiplication
  starts from its constant and multiplies by base to the exponent, in the order of the
  map. An exception is an \<open>Inl\<close>; of two arguments the first is evaluated first.
\<close>

function (sequential)
  Visit :: "IntervalLibrary \<Rightarrow> Expression \<Rightarrow> Box \<Rightarrow> eval_error + Interval" and
  VisitPow :: "IntervalLibrary \<Rightarrow> Expression \<Rightarrow> Expression \<Rightarrow> Box \<Rightarrow> eval_error + Interval"
where
  "Visit L (E_Variable var) b = Inr (box_at_var b var)"
| "Visit L (E_Constant c) b = Inr (iv_point c)"
| "Visit L (E_RealConstant l u) b = Inr (mk_interval l u)"
| "Visit L E_NaN b = Inl NaNDetected"
| "Visit L (E_Addition c expr_to_coeff_map) b =
     foldl (\<lambda>init p. binary (\<lambda>i x. iv_add i (iv_mul x (iv_point (snd p)))) init (Visit L (fst p) b))
       (Inr (iv_point c)) expr_to_coeff_map"
| "Visit L (E_Multiplication c base_to_exponent_map) b =
     foldl (\<lambda>init p. binary iv_mul init (VisitPow L (fst p) (snd p) b))
       (Inr (iv_point c)) base_to_exponent_map"
| "Visit L (E_Division e1 e2) b = binary (iv_div L) (Visit L e1 b) (Visit L e2 b)"
| "Visit L (E_Log e) b = unary (iv_log L) (Visit L e b)"
| "Visit L (E_Abs e) b = unary (iv_abs L) (Visit L e b)"
| "Visit L (E_Exp e) b = unary (iv_exp L) (Visit L e b)"
| "Visit L (E_Sqrt e) b = unary (iv_sqrt L) (Visit L e b)"
| "Visit L (E_Pow e1 e2) b = VisitPow L e1 e2 b"
| "Visit L (E_Sin e) b = unary (iv_sin L) (Visit L e b)"
| "Visit L (E_Cos e) b = unary (iv_cos L) (Visit L e b)"
| "Visit L (E_Tan e) b = unary (iv_tan L) (Visit L e b)"
| "Visit L (E_Asin e) b = unary (iv_asin L) (Visit L e b)"
| "Visit L (E_Acos e) b = unary (iv_acos L) (Visit L e b)"
| "Visit L (E_Atan e) b = unary (iv_atan L) (Visit L e b)"
| "Visit L (E_Atan2 e1 e2) b = binary (iv_atan2 L) (Visit L e1 b) (Visit L e2 b)"
| "Visit L (E_Sinh e) b = unary (iv_sinh L) (Visit L e b)"
| "Visit L (E_Cosh e) b = unary (iv_cosh L) (Visit L e b)"
| "Visit L (E_Tanh e) b = unary (iv_tanh L) (Visit L e b)"
| "Visit L (E_Min e1 e2) b = binary (iv_min L) (Visit L e1 b) (Visit L e2 b)"
| "Visit L (E_Max e1 e2) b = binary (iv_max L) (Visit L e1 b) (Visit L e2 b)"
| "Visit L (E_IfThenElse c e1 e2) b = Inl IfThenElseNotSupported"
| "Visit L (E_UninterpretedFunction name vars) b = Inl UninterpretedFunctionNotSupported"
| "VisitPow L e1 e2 b = binary (pow_of L) (Visit L e1 b) (Visit L e2 b)"
  by pat_completeness auto
termination
proof (relation "measure (\<lambda>x. case x of
          Inl (L, e, b) \<Rightarrow> 2 * size e
        | Inr (L, e1, e2, b) \<Rightarrow> 2 * (size e1 + size e2) + 1)", goal_cases)
  case (2 L c m b init p)
  have "size (fst q) \<le> size_list (\<lambda>x. Suc (size (fst x))) xs" if "q \<in> set xs"
    for q :: "Expression \<times> real" and xs
    using that by (induction xs) auto
  from this[of p m] 2 show ?case by (simp add: size_prod_simp)
next
  case (3 L c m b init p)
  have "size (fst q) + size (snd q) \<le> size_list (\<lambda>x. Suc (size (fst x) + size (snd x))) xs"
    if "q \<in> set xs" for q :: "Expression \<times> Expression" and xs
    using that by (induction xs) auto
  from this[of p m] 3 show ?case by (simp add: size_prod_simp)
qed simp_all

text \<open>\<open>Eval(f, x)\<close> builds an evaluator for \<open>f\<close> and applies it to the box.\<close>

definition Eval :: "IntervalLibrary \<Rightarrow> Expression \<Rightarrow> Box \<Rightarrow> eval_error + Interval" where
  "Eval L f x = Visit L f x"

text \<open>\<open>Mid\<close>: the box of the midpoints, each as a point interval.\<close>

definition Mid :: "Box \<Rightarrow> Box" where
  "Mid b = b\<lparr>intervals := map (\<lambda>iv. iv_point (mid iv)) (intervals b)\<rparr>"

section \<open>\<open>Taylor1Eval\<close> and \<open>Taylor2Eval\<close>\<close>

text \<open>
  \<open>Expression::Differentiate\<close> belongs to the symbolic library; it is a parameter
  \<open>D\<close> here, and it can throw. \<open>ret += t\<close> on
  results that may be exceptions is \<open>binary iv_add ret t\<close>.
\<close>

type_synonym Differentiation = "Expression \<Rightarrow> Variable \<Rightarrow> eval_error + Expression"

text \<open>
  The term of dimension \<open>i\<close> in the sum of \<open>Taylor1Eval\<close>: the derivative of \<open>f\<close> by the
  variable of the dimension, evaluated over the box \<open>x\<close>, times \<open>x[i] - x0[i]\<close>.
\<close>

definition Taylor1_term ::
  "IntervalLibrary \<Rightarrow> Differentiation \<Rightarrow> Expression \<Rightarrow> Box \<Rightarrow> Box \<Rightarrow> nat \<Rightarrow> eval_error + Interval" where
  "Taylor1_term L D f x x0 i =
     (case D f (variables x ! i) of
        Inl e \<Rightarrow> Inl e
      | Inr df \<Rightarrow> unary (\<lambda>d. iv_mul d (iv_sub (box_at x i) (box_at x0 i))) (Eval L df x))"

definition Taylor1Eval ::
  "IntervalLibrary \<Rightarrow> Differentiation \<Rightarrow> Expression \<Rightarrow> Box \<Rightarrow> eval_error + Interval" where
  "Taylor1Eval L D f x =
     (let x0 = Mid x;
          ret = Eval L f x0
      in foldl (\<lambda>ret i. binary iv_add ret (Taylor1_term L D f x x0 i)) ret [0..<size_box x])"

text \<open>
  The term of dimension \<open>i\<close> in the first loop of \<open>Taylor2Eval\<close>: the derivative is
  evaluated over the box of the midpoints, \<open>x0\<close>.
\<close>

definition Taylor2_first_order_term ::
  "IntervalLibrary \<Rightarrow> Differentiation \<Rightarrow> Expression \<Rightarrow> Box \<Rightarrow> Box \<Rightarrow> nat \<Rightarrow> eval_error + Interval" where
  "Taylor2_first_order_term L D f x x0 i =
     (case D f (variables x ! i) of
        Inl e \<Rightarrow> Inl e
      | Inr df \<Rightarrow> unary (\<lambda>d. iv_mul d (iv_sub (box_at x i) (box_at x0 i))) (Eval L df x0))"

text \<open>
  The term of the dimensions \<open>i\<close> and \<open>j\<close> in the second loop: the second derivative
  evaluated over \<open>x\<close>, times \<open>x[i] - x0[i]\<close>, times \<open>x[j] - x0[j]\<close>, and first times 0.5
  when \<open>i = j\<close>.
\<close>

definition Taylor2_second_order_term ::
  "IntervalLibrary \<Rightarrow> Differentiation \<Rightarrow> Expression \<Rightarrow> Box \<Rightarrow> Box \<Rightarrow> nat \<Rightarrow> nat
   \<Rightarrow> eval_error + Interval" where
  "Taylor2_second_order_term L D f x x0 i j =
     (case D f (variables x ! i) of
        Inl e \<Rightarrow> Inl e
      | Inr df \<Rightarrow>
          (case D df (variables x ! j) of
             Inl e \<Rightarrow> Inl e
           | Inr ddf \<Rightarrow>
               unary (\<lambda>h. if i = j
                          then iv_mul (iv_mul (iv_mul (iv_point (1 / 2)) h)
                                 (iv_sub (box_at x i) (box_at x0 i)))
                                 (iv_sub (box_at x j) (box_at x0 j))
                          else iv_mul (iv_mul h (iv_sub (box_at x i) (box_at x0 i)))
                                 (iv_sub (box_at x j) (box_at x0 j)))
                 (Eval L ddf x)))"

text \<open>The second loop of \<open>Taylor2Eval\<close>, over \<open>i\<close> and \<open>j \<ge> i\<close>, from a given \<open>ret\<close>.\<close>

definition Taylor2_second_order ::
  "IntervalLibrary \<Rightarrow> Differentiation \<Rightarrow> Expression \<Rightarrow> Box \<Rightarrow> eval_error + Interval
   \<Rightarrow> eval_error + Interval" where
  "Taylor2_second_order L D f x ret =
     foldl (\<lambda>ret i.
              foldl (\<lambda>ret j. binary iv_add ret (Taylor2_second_order_term L D f x (Mid x) i j))
                ret [i..<size_box x])
       ret [0..<size_box x]"

definition Taylor2Eval ::
  "IntervalLibrary \<Rightarrow> Differentiation \<Rightarrow> Expression \<Rightarrow> Box \<Rightarrow> eval_error + Interval" where
  "Taylor2Eval L D f x =
     (let x0 = Mid x;
          ret = Eval L f x0;
          ret = foldl (\<lambda>ret i. binary iv_add ret (Taylor2_first_order_term L D f x x0 i))
                  ret [0..<size_box x]
      in Taylor2_second_order L D f x ret)"

text \<open>
  An interval library for the examples: \<open>sqr\<close> and the power with an integer exponent
  that is not negative are exact; the other functions return the empty interval.
\<close>

fun ex_sqr :: "Interval \<Rightarrow> Interval" where
  "ex_sqr EMPTY_SET = EMPTY_SET"
| "ex_sqr (Iv a b) =
     (if 0 \<le> a then Iv (a * a) (b * b)
      else if b \<le> 0 then Iv (b * b) (a * a)
      else Iv 0 (max (a * a) (b * b)))"

fun ex_pow_int :: "Interval \<Rightarrow> int \<Rightarrow> Interval" where
  "ex_pow_int EMPTY_SET n = EMPTY_SET"
| "ex_pow_int (Iv a b) n =
     (if n < 0 then EMPTY_SET
      else if odd n \<or> 0 \<le> a then Iv (a ^ nat n) (b ^ nat n)
      else if b \<le> 0 then Iv (b ^ nat n) (a ^ nat n)
      else Iv 0 (max (a ^ nat n) (b ^ nat n)))"

definition ex_library :: IntervalLibrary where
  "ex_library =
     \<lparr>iv_div = (\<lambda>x y. EMPTY_SET), iv_log = (\<lambda>x. EMPTY_SET), iv_abs = (\<lambda>x. EMPTY_SET),
      iv_exp = (\<lambda>x. EMPTY_SET), iv_sqrt = (\<lambda>x. EMPTY_SET), iv_sqr = ex_sqr,
      iv_pow_int = ex_pow_int, iv_pow_real = (\<lambda>x d. EMPTY_SET), iv_pow = (\<lambda>x y. EMPTY_SET),
      iv_sin = (\<lambda>x. EMPTY_SET), iv_cos = (\<lambda>x. EMPTY_SET), iv_tan = (\<lambda>x. EMPTY_SET),
      iv_asin = (\<lambda>x. EMPTY_SET), iv_acos = (\<lambda>x. EMPTY_SET), iv_atan = (\<lambda>x. EMPTY_SET),
      iv_atan2 = (\<lambda>x y. EMPTY_SET), iv_sinh = (\<lambda>x. EMPTY_SET), iv_cosh = (\<lambda>x. EMPTY_SET),
      iv_tanh = (\<lambda>x. EMPTY_SET), iv_min = (\<lambda>x y. EMPTY_SET), iv_max = (\<lambda>x y. EMPTY_SET)\<rparr>"

text \<open>
  The expression \<open>x\<^sup>2\<close> (the power of the variable 0 with the constant 2), its derivative
  \<open>2 \<cdot> x\<close> and the derivative 2 of that; the differentiation of the examples knows
  these two derivatives and gives 0 otherwise.
\<close>

definition ex_square :: Expression where
  "ex_square = E_Pow (E_Variable 0) (E_Constant 2)"

definition ex_double :: Expression where
  "ex_double = E_Multiplication 2 [(E_Variable 0, E_Constant 1)]"

definition ex_D :: Differentiation where
  "ex_D e v =
     (if e = ex_square \<and> v = 0 then Inr ex_double
      else if e = ex_double \<and> v = 0 then Inr (E_Constant 2)
      else Inr (E_Constant 0))"

definition ex_box2 :: Box where
  "ex_box2 = \<lparr>variables = [0], intervals = [Iv 0 2]\<rparr>"

text \<open>
  A two-dimensional box whose second interval is a point, and a constraint over both
  variables that is \<open>VALID\<close> on every box.
\<close>

definition ex_box_xy :: Box where
  "ex_box_xy = \<lparr>variables = [0, 1], intervals = [Iv 0 4, Iv 1 1]\<rparr>"

definition ex_unknown_xy :: "nat FormulaEvaluator" where
  "ex_unknown_xy =
     \<lparr>formula = 9, fe_variables = [0, 1],
      evaluate = (\<lambda>b. \<lparr>type = UNKNOWN, evaluation = box_at b 0\<rparr>)\<rparr>"

definition ex_valid :: "nat FormulaEvaluator" where
  "ex_valid =
     \<lparr>formula = 10, fe_variables = [0, 1],
      evaluate = (\<lambda>b. \<lparr>type = VALID, evaluation = box_at b 0\<rparr>)\<rparr>"

section \<open>Seeding of the parallel engine\<close>

text \<open>
  Claim C9. For every non-empty box \<open>B\<close> and every \<open>n \<ge> 1\<close>, \<open>FillUp(B, n)\<close> is said to
  return a non-empty list of at most \<open>n\<close> boxes whose union covers \<open>B\<close>. The code does
  not: a box in which \<open>FindMaxDiamIdx\<close> finds no dimension is left out of the result of
  \<open>DoubleUp\<close>. For the one-dimensional point box \<open>x \<in> [1, 1]\<close>, which is not empty, and
  \<open>n = 2\<close> the loop of \<open>FillUp\<close> ends after two rounds with the empty list.
\<close>

theorem FillUp_drops_point_box:
  "\<forall>fuel. FillUp (Suc (Suc fuel)) \<lparr>variables = [0], intervals = [Iv 1 1]\<rparr> 2 = Some []"
  by (simp add: FillUp_def DoubleUp_def FindMaxDiamIdx_def FindMaxDiamIdx_step_def
      size_box_def box_at_def)

section \<open>Branching candidates\<close>

lemma foldl_add_bisectable:
  "foldl (add_bisectable b) acc vs =
     acc \<union> {index b v | v. v \<in> set vs \<and> is_bisectable (box_at_var b v)}"
  by (induction vs arbitrary: acc) (auto simp: add_bisectable_def)

lemma candidates_of_Cons:
  "candidates_of prec (fe # fes) b =
     (if type (evaluate fe b) = UNKNOWN \<and> diam (evaluation (evaluate fe b)) > prec
      then {index b v | v. v \<in> set (fe_variables fe) \<and> is_bisectable (box_at_var b v)}
      else {}) \<union> candidates_of prec fes b"
  by (auto simp: candidates_of_def)

lemma EvaluateBox_loop_eq:
  "EvaluateBox_loop prec fes b cs acc =
     (case find (\<lambda>fe. type (evaluate fe b) = UNSAT) fes of
        Some fe \<Rightarrow>
          (None, cs\<lparr>box := set_empty (box cs),
                     used_constraints := insert (formula fe) (used_constraints cs)\<rparr>)
      | None \<Rightarrow> (Some (acc \<union> candidates_of prec fes b), cs))"
proof (induction fes arbitrary: acc)
  case Nil
  show ?case by (simp add: candidates_of_def)
next
  case (Cons fe fes)
  show ?case
  proof (cases "type (evaluate fe b)")
    case UNSAT
    then show ?thesis by (simp add: AddUsedConstraint_def)
  next
    case VALID
    then show ?thesis by (simp add: Cons.IH candidates_of_Cons split: option.split)
  next
    case UNKNOWN
    then show ?thesis
      by (simp add: Cons.IH candidates_of_Cons foldl_add_bisectable Un_assoc split: option.split)
  qed
qed

text \<open>
  Claim C2. For every list of formula evaluators, box \<open>B\<close> and status \<open>cs\<close>: when some
  evaluator reports \<open>UNSAT\<close> on \<open>B\<close>, \<open>EvaluateBox\<close> returns no bitset, and the status it
  leaves has its box set empty and the formula of the first such evaluator added to the
  used constraints; otherwise the status is unchanged and the bitset returned is exactly
  the set of box-indices of the variables \<open>v\<close> for which some evaluator reports
  \<open>UNKNOWN\<close> with a diameter strictly above the precision, \<open>v\<close> is a free variable of
  that evaluator and \<open>B[v]\<close> is bisectable. \<open>VALID\<close> results and \<open>UNKNOWN\<close> results of
  diameter at most the precision add nothing.
\<close>

theorem EvaluateBox_spec:
  "EvaluateBox cfg fes b cs =
     (case find (\<lambda>fe. type (evaluate fe b) = UNSAT) fes of
        Some fe \<Rightarrow>
          (None, cs\<lparr>box := set_empty (box cs),
                     used_constraints := insert (formula fe) (used_constraints cs)\<rparr>)
      | None \<Rightarrow> (Some (candidates_of (precision cfg) fes b), cs))"
  by (simp add: EvaluateBox_def EvaluateBox_loop_eq split: option.split)

lemma candidates_of_Nil: "candidates_of prec [] b = {}"
  by (simp add: candidates_of_def)

lemma candidates_of_code:
  "candidates_of prec (fe # fes) b =
     (if type (evaluate fe b) = UNKNOWN \<and> diam (evaluation (evaluate fe b)) > prec
      then foldl (add_bisectable b) {} (fe_variables fe) else {}) \<union> candidates_of prec fes b"
  by (simp add: candidates_of_Cons foldl_add_bisectable)

text \<open>
  Claim C2 on examples: a valid constraint and an unknown one over a bisectable \<open>x\<close> and
  a point \<open>y\<close>, with the precision below and at the diameter; and a list with an
  \<open>UNSAT\<close> evaluator in the middle.
\<close>

theorem EvaluateBox_spec_witness:
  "EvaluateBox (ex_config MaxDiam) [ex_valid, ex_unknown_xy] ex_box_xy ex_status
     = (Some {0}, ex_status) \<and>
   EvaluateBox ((ex_config MaxDiam)\<lparr>precision := 4\<rparr>) [ex_valid, ex_unknown_xy] ex_box_xy ex_status
     = (Some {}, ex_status) \<and>
   EvaluateBox (ex_config MaxDiam) [ex_unknown, ex_unsat, ex_valid] ex_box ex_status
     = (None, ex_status\<lparr>box := \<lparr>variables = [0], intervals = [EMPTY_SET]\<rparr>,
                          used_constraints := {8}\<rparr>)"
proof -
  have c3: "candidates_of 3 [ex_valid, ex_unknown_xy] ex_box_xy = {0}"
    by (simp add: candidates_of_code candidates_of_Nil add_bisectable_def ex_valid_def
        ex_unknown_xy_def ex_box_xy_def box_at_def box_at_var_def index_def)
  have c4: "candidates_of 4 [ex_valid, ex_unknown_xy] ex_box_xy = {}"
    by (simp add: candidates_of_code candidates_of_Nil add_bisectable_def ex_valid_def
        ex_unknown_xy_def ex_box_xy_def box_at_def box_at_var_def index_def)
  have a: "EvaluateBox (ex_config MaxDiam) [ex_valid, ex_unknown_xy] ex_box_xy ex_status
     = (Some {0}, ex_status)"
    using EvaluateBox_spec[of "ex_config MaxDiam" "[ex_valid, ex_unknown_xy]" ex_box_xy ex_status] c3
    by (simp add: ex_config_def ex_valid_def ex_unknown_xy_def)
  have b: "EvaluateBox ((ex_config MaxDiam)\<lparr>precision := 4\<rparr>) [ex_valid, ex_unknown_xy]
      ex_box_xy ex_status = (Some {}, ex_status)"
    using EvaluateBox_spec[of "(ex_config MaxDiam)\<lparr>precision := 4\<rparr>"
        "[ex_valid, ex_unknown_xy]" ex_box_xy ex_status] c4
    by (simp add: ex_valid_def ex_unknown_xy_def)
  have c: "EvaluateBox (ex_config MaxDiam) [ex_unknown, ex_unsat, ex_valid] ex_box ex_status
     = (None, ex_status\<lparr>box := \<lparr>variables = [0], intervals = [EMPTY_SET]\<rparr>,
                          used_constraints := {8}\<rparr>)"
    using EvaluateBox_spec[of "ex_config MaxDiam" "[ex_unknown, ex_unsat, ex_valid]" ex_box ex_status]
    by (simp add: ex_unknown_def ex_unsat_def ex_valid_def ex_box_def ex_status_def box_at_def
        set_empty_def)
  from a b c show ?thesis by blast
qed

section \<open>The sequential engine\<close>

lemma EvaluateBox_Some_status:
  "EvaluateBox cfg fes b cs = (Some bc, cs') \<Longrightarrow> cs' = cs"
  by (simp add: EvaluateBox_def EvaluateBox_loop_eq split: option.splits)

lemma is_bisectable_diam: "is_bisectable iv \<Longrightarrow> 0 < diam iv"
  by (cases iv) auto

lemma FindMaxDiam_foldl:
  "0 \<le> snd (foldl (FindMaxDiam_step b bc) acc xs) \<longleftrightarrow>
     0 \<le> snd acc \<or>
     (\<exists>i \<in> set xs. i \<in> bc \<and> is_bisectable (box_at b i) \<and> fst acc < diam (box_at b i))"
proof (induction xs arbitrary: acc)
  case Nil
  show ?case by simp
next
  case (Cons x xs)
  let ?q = "x \<in> bc \<and> fst acc < diam (box_at b x) \<and> is_bisectable (box_at b x)"
  show ?case
  proof (cases ?q)
    case True
    then have "FindMaxDiam_step b bc acc x = (diam (box_at b x), int x)"
      by (simp add: FindMaxDiam_step_def)
    with True show ?thesis
      by (auto simp: Cons.IH)
  next
    case False
    then have "FindMaxDiam_step b bc acc x = acc"
      by (auto simp: FindMaxDiam_step_def)
    with False show ?thesis
      by (auto simp: Cons.IH)
  qed
qed

text \<open>
  The routine modelled from the specification reports failure exactly when no candidate
  dimension of the box is bisectable.
\<close>

lemma BranchMaxDiam_fails_iff:
  "fst (BranchMaxDiam b bc left_box_first st) \<longleftrightarrow>
     (\<forall>i < size_box b. i \<in> bc \<longrightarrow> \<not> is_bisectable (box_at b i))"
proof -
  have "0 \<le> snd (FindMaxDiam b bc) \<longleftrightarrow>
      (\<exists>i < size_box b. i \<in> bc \<and> is_bisectable (box_at b i))"
    unfolding FindMaxDiam_def FindMaxDiam_foldl
    by (auto dest: is_bisectable_diam)
  then show ?thesis
    by (auto simp: BranchMaxDiam_def Let_def)
qed

lemma EvaluateBox_candidates_bisectable:
  assumes "EvaluateBox cfg fes b cs = (Some bc, cs')" and "i \<in> bc"
  shows "is_bisectable (box_at b i)"
proof -
  from assms(1) have "bc = candidates_of (precision cfg) fes b"
    by (simp add: EvaluateBox_def EvaluateBox_loop_eq split: option.splits)
  with assms(2) show ?thesis
    by (auto simp: candidates_of_def box_at_var_def)
qed






text \<open>With the routine modelled from the specification the second case needs a candidate
  outside the box: a candidate inside it can be bisected.\<close>

lemma BranchMaxDiam_finds_candidate:
  assumes "EvaluateBox cfg fes b cs = (Some bc, cs')" and "i \<in> bc" and "i < size_box b"
  shows "\<not> fst (BranchMaxDiam b bc left_box_first st)"
  using assms EvaluateBox_candidates_bisectable[OF assms(1,2)]
  by (auto simp: BranchMaxDiam_fails_iff)


lemmas ex_defs =
  ex_icp_def ex_config_def ex_unknown_def ex_status_def ex_box_def ex_branch_gd_def
  ex_icp_degenerate_def ex_unsat_def ex_icp_unsat_def
  CheckSat_init_def CheckSat_body_def pop_and_prune_def branch_step_def
  EvaluateBox_def add_bisectable_def box_at_var_def box_at_def index_def
  AddUsedConstraint_def set_empty_def empty_box_def
  BranchMaxDiam_def FindMaxDiam_def FindMaxDiam_step_def bisect_def box_set_def size_box_def
  evaluation_of_def branching_fails_def

lemma ex_head1:
  "loop_head (ex_icp MaxDiam) 1 (CheckSat_init (ex_icp MaxDiam) ex_status) =
     \<lparr>stack = [(\<lparr>variables = [0], intervals = [Iv 0 2]\<rparr>, 0),
               (\<lparr>variables = [0], intervals = [Iv 2 4]\<rparr>, 0)],
      status = ex_status, icp_stack_left_box_first = True, num_prune = 1, num_branch = 1\<rparr>"
  by (simp add: loop_head_def ex_defs)
















lemma pop_and_prune_flag:
  "icp_stack_left_box_first (pop_and_prune icp s) = icp_stack_left_box_first s"
  by (simp add: pop_and_prune_def split: list.splits)

lemma CheckSat_body_flag:
  assumes "stack s \<noteq> []"
  shows "icp_stack_left_box_first (snd (CheckSat_body icp s)) =
     (if branching_at icp s \<and> branching_strategy (config icp) = MaxDiam
      then \<not> icp_stack_left_box_first s else icp_stack_left_box_first s)"
proof -
  let ?s2 = "pop_and_prune icp s"
  obtain r cs' where ev:
    "EvaluateBox (config icp) (formula_evaluators icp) (box (status ?s2)) (status ?s2) = (r, cs')"
    by (cases "EvaluateBox (config icp) (formula_evaluators icp) (box (status ?s2)) (status ?s2)")
  note flag = pop_and_prune_flag[of icp s]
  show ?thesis
  proof (cases "empty_box (box (status ?s2))")
    case True
    then show ?thesis
      by (simp add: CheckSat_body_def branching_at_def Let_def flag)
  next
    case ne: False
    show ?thesis
    proof (cases r)
      case None
      with ne ev show ?thesis
        by (simp add: CheckSat_body_def branching_at_def evaluation_of_def Let_def flag)
    next
      case (Some bc)
      with ev have cs': "cs' = status ?s2" by (simp add: EvaluateBox_Some_status)
      show ?thesis
      proof (cases "bc = {}")
        case True
        with ne ev Some assms show ?thesis
          by (simp add: CheckSat_body_def branching_at_def evaluation_of_def Let_def flag)
      next
        case False
        with ne ev Some assms cs' flag show ?thesis
          by (cases "branching_strategy (config icp)")
             (auto simp: CheckSat_body_def branching_at_def evaluation_of_def
                Let_def branch_step_def branching_fails_def split: prod.splits)
      qed
    qed
  qed
qed

text \<open>
  Claim C3, as the code has it. After a branching step the flag \<open>stack_left_box_first_\<close>
  is flipped under the \<open>MaxDiam\<close> strategy and is left as it is under
  \<open>GradientDescent\<close> (whose routine is not given the flag); a pass that is not a
  branching step leaves the flag as it is. So under \<open>MaxDiam\<close> consecutive branching
  steps alternate between the two stacking orders.
\<close>

theorem stack_left_box_first_after_pass:
  "(branching_at icp s \<longrightarrow>
      icp_stack_left_box_first (snd (CheckSat_body icp s)) =
        (case branching_strategy (config icp) of
           MaxDiam \<Rightarrow> \<not> icp_stack_left_box_first s
         | GradientDescent \<Rightarrow> icp_stack_left_box_first s)) \<and>
   (stack s \<noteq> [] \<and> \<not> branching_at icp s \<longrightarrow>
      icp_stack_left_box_first (snd (CheckSat_body icp s)) = icp_stack_left_box_first s)"
proof (intro conjI impI)
  assume b: "branching_at icp s"
  then have "stack s \<noteq> []" by (simp add: branching_at_def)
  from CheckSat_body_flag[OF this, of icp] b
  show "icp_stack_left_box_first (snd (CheckSat_body icp s)) =
        (case branching_strategy (config icp) of
           MaxDiam \<Rightarrow> \<not> icp_stack_left_box_first s
         | GradientDescent \<Rightarrow> icp_stack_left_box_first s)"
    by (cases "branching_strategy (config icp)") simp_all
next
  assume "stack s \<noteq> [] \<and> \<not> branching_at icp s"
  then show "icp_stack_left_box_first (snd (CheckSat_body icp s)) = icp_stack_left_box_first s"
    by (simp add: CheckSat_body_flag)
qed

lemma ex_branching_at: "branching_at (ex_icp strategy) (CheckSat_init (ex_icp strategy) ex_status)"
  by (cases strategy) (simp_all add: branching_at_def ex_defs)

text \<open>
  Claim C3 as stated (the flag is flipped after every branching step under both
  strategies) fails under \<open>GradientDescent\<close>: the first pass on the example problem is a
  branching step and leaves the flag false, as it was.
\<close>

theorem gradient_descent_keeps_stack_left_box_first:
  "branching_at (ex_icp GradientDescent) (CheckSat_init (ex_icp GradientDescent) ex_status) \<and>
   icp_stack_left_box_first
     (snd (CheckSat_body (ex_icp GradientDescent) (CheckSat_init (ex_icp GradientDescent) ex_status)))
   = icp_stack_left_box_first (CheckSat_init (ex_icp GradientDescent) ex_status)"
  using ex_branching_at[of GradientDescent] by (simp add: ex_defs)

lemma ex_not_branching_at:
  "\<not> branching_at (ex_icp MaxDiam)
       (loop_head (ex_icp MaxDiam) 1 (CheckSat_init (ex_icp MaxDiam) ex_status))"
  unfolding ex_head1 by (simp add: branching_at_def ex_defs)

text \<open>
  The three cases of the amended claim on the example problem: a branching step under
  each strategy, and the second pass under \<open>MaxDiam\<close>, which is not a branching step.
\<close>

theorem stack_left_box_first_after_pass_witness:
  "(branching_at (ex_icp MaxDiam) (CheckSat_init (ex_icp MaxDiam) ex_status) \<and>
    \<not> icp_stack_left_box_first (CheckSat_init (ex_icp MaxDiam) ex_status) \<and>
    icp_stack_left_box_first
      (snd (CheckSat_body (ex_icp MaxDiam) (CheckSat_init (ex_icp MaxDiam) ex_status)))) \<and>
   (branching_at (ex_icp GradientDescent) (CheckSat_init (ex_icp GradientDescent) ex_status) \<and>
    \<not> icp_stack_left_box_first (CheckSat_init (ex_icp GradientDescent) ex_status) \<and>
    \<not> icp_stack_left_box_first
      (snd (CheckSat_body (ex_icp GradientDescent)
         (CheckSat_init (ex_icp GradientDescent) ex_status)))) \<and>
   (stack (loop_head (ex_icp MaxDiam) 1 (CheckSat_init (ex_icp MaxDiam) ex_status)) \<noteq> [] \<and>
    \<not> branching_at (ex_icp MaxDiam)
       (loop_head (ex_icp MaxDiam) 1 (CheckSat_init (ex_icp MaxDiam) ex_status)) \<and>
    icp_stack_left_box_first (snd (CheckSat_body (ex_icp MaxDiam)
       (loop_head (ex_icp MaxDiam) 1 (CheckSat_init (ex_icp MaxDiam) ex_status)))))"
proof -
  have f0: "\<not> icp_stack_left_box_first (CheckSat_init (ex_icp strategy) ex_status)" for strategy
    by (simp add: ex_defs)
  have s1: "stack (loop_head (ex_icp MaxDiam) 1 (CheckSat_init (ex_icp MaxDiam) ex_status)) \<noteq> []"
    and f1: "icp_stack_left_box_first
       (loop_head (ex_icp MaxDiam) 1 (CheckSat_init (ex_icp MaxDiam) ex_status))"
    unfolding ex_head1 by simp_all
  have c1: "config (ex_icp strategy) = ex_config strategy" for strategy
    by (simp add: ex_icp_def)
  from stack_left_box_first_after_pass[of "ex_icp MaxDiam" "CheckSat_init (ex_icp MaxDiam) ex_status"]
    stack_left_box_first_after_pass[of "ex_icp GradientDescent"
      "CheckSat_init (ex_icp GradientDescent) ex_status"]
    stack_left_box_first_after_pass[of "ex_icp MaxDiam"
      "loop_head (ex_icp MaxDiam) 1 (CheckSat_init (ex_icp MaxDiam) ex_status)"]
    ex_branching_at[of MaxDiam] ex_branching_at[of GradientDescent] ex_not_branching_at f0 s1 f1
  show ?thesis by (simp add: c1 ex_config_def)
qed

section \<open>The parallel engine\<close>

lemma first_thrown_None:
  "first_thrown rs = None \<longleftrightarrow> (\<forall>r \<in> set rs. r = None)"
  by (induction rs) (auto simp: first_thrown_def)

lemma first_thrown_Some:
  "first_thrown rs = Some e \<Longrightarrow> Some e \<in> set rs"
  by (induction rs) (auto simp: first_thrown_def split: if_splits)


lemma no_error_main: "1 \<le> jobs \<Longrightarrow> no_error jobs out \<Longrightarrow> thrown out ! (nat jobs - 1) = None"
  by (simp add: no_error_def)

lemma no_error_pool:
  assumes "no_error jobs out" "length (thrown out) = nat jobs"
  shows "first_thrown (take (nat jobs - 1) (thrown out)) = None"
proof -
  have "r = None" if "r \<in> set (take (nat jobs - 1) (thrown out))" for r
  proof -
    from that obtain i where "i < nat jobs - 1" "i < length (thrown out)" "r = thrown out ! i"
      by (auto simp: in_set_conv_nth)
    with assms(1) show ?thesis by (simp add: no_error_def)
  qed
  then show ?thesis by (simp add: first_thrown_None)
qed


text \<open>
  Claim C4. \<open>IcpParallel::CheckSat\<close> prunes the initial box once and returns false at
  once when that leaves the box empty. Otherwise, when the workers have all ended
  without an error and their statuses have been joined into the status pruned at the
  start, it returns true with the box of the status of the worker named by
  \<open>found_delta_sat\<close> when that is not negative, and false with the box set empty when it
  is. This holds for every run of the workers (the run is a parameter).
\<close>

theorem IcpParallel_CheckSat_result:
  "(empty_box (box (contractor p cs0)) \<longrightarrow>
      IcpParallel_CheckSat fuel p workers interrupted cs0 = Some (Inr (False, contractor p cs0))) \<and>
   (\<not> empty_box (box (contractor p cs0)) \<and>
    FillUp fuel (box (contractor p cs0)) (number_of_jobs (config p)) = Some boxes \<and>
    workers (seeded boxes interrupted) (replicate (nat (number_of_jobs (config p))) (contractor p cs0))
      = Some out \<and>
    1 \<le> number_of_jobs (config p) \<and> length (thrown out) = nat (number_of_jobs (config p)) \<and>
    no_error (number_of_jobs (config p)) out \<and>
    joined = foldl (InplaceJoin p) (contractor p cs0) (status_vector out)
    \<longrightarrow>
      IcpParallel_CheckSat fuel p workers interrupted cs0 =
        Some (Inr (if found out \<ge> 0
                   then (True, joined\<lparr>box := box (status_vector out ! nat (found out))\<rparr>)
                   else (False, joined\<lparr>box := set_empty (box joined)\<rparr>))))"
proof (intro conjI impI)
  assume "empty_box (box (contractor p cs0))"
  then show "IcpParallel_CheckSat fuel p workers interrupted cs0 = Some (Inr (False, contractor p cs0))"
    by (simp add: IcpParallel_CheckSat_def)
next
  let ?jobs = "number_of_jobs (config p)"
  assume a: "\<not> empty_box (box (contractor p cs0)) \<and>
    FillUp fuel (box (contractor p cs0)) ?jobs = Some boxes \<and>
    workers (seeded boxes interrupted) (replicate (nat ?jobs) (contractor p cs0)) = Some out \<and>
    1 \<le> ?jobs \<and> length (thrown out) = nat ?jobs \<and> no_error ?jobs out \<and>
    joined = foldl (InplaceJoin p) (contractor p cs0) (status_vector out)"
  then have j: "1 \<le> ?jobs" and ne: "no_error ?jobs out"
    and len: "length (thrown out) = nat ?jobs"
    by blast+
  have m: "thrown out ! (nat ?jobs - 1) = None"
    by (rule no_error_main[OF j ne])
  have q: "first_thrown (take (nat ?jobs - 1) (thrown out)) = None"
    by (rule no_error_pool[OF ne len])
  from a m q show "IcpParallel_CheckSat fuel p workers interrupted cs0 =
        Some (Inr (if found out \<ge> 0
                   then (True, joined\<lparr>box := box (status_vector out ! nat (found out))\<rparr>)
                   else (False, joined\<lparr>box := set_empty (box joined)\<rparr>)))"
    by (simp add: IcpParallel_CheckSat_def seeded_def join_and_decide_def Let_def)
qed


lemmas ex_par_defs =
  ex_parallel_def ex_config_def ex_unknown_def ex_unsat_def ex_status_def ex_box_def
  ex_join_def ex_refute_def seeded_def
  main_first_def Worker_def Worker_pass_def Worker_prune_def Worker_evaluate_def
  ParallelBranch_def
  EvaluateBox_def add_bisectable_def box_at_var_def box_at_def index_def
  AddUsedConstraint_def set_empty_def empty_box_def
  FindMaxDiam_def FindMaxDiam_step_def bisect_def box_set_def size_box_def
  FillUp_def DoubleUp_def FindMaxDiamIdx_def FindMaxDiamIdx_step_def

lemma ex_FillUp: "FillUp 5 ex_box 2 =
   Some [\<lparr>variables = [0], intervals = [Iv 0 2]\<rparr>, \<lparr>variables = [0], intervals = [Iv 2 4]\<rparr>]"
  by (simp add: eval_nat_numeral ex_par_defs)

lemma ex_main_first_sat:
  "main_first 5 (ex_parallel 2 False [ex_unknown])
     (seeded [\<lparr>variables = [0], intervals = [Iv 0 2]\<rparr>, \<lparr>variables = [0], intervals = [Iv 2 4]\<rparr>] False)
     (replicate 2 ex_status) =
   Some \<lparr>thrown = [None, None], found = 1,
         status_vector = [ex_status, ex_status\<lparr>box := \<lparr>variables = [0], intervals = [Iv 2 4]\<rparr>\<rparr>]\<rparr>"
  by (simp add: eval_nat_numeral ex_par_defs)

lemma ex_main_first_unsat:
  "main_first 5 (ex_parallel 2 False [ex_unknown, ex_unsat])
     (seeded [\<lparr>variables = [0], intervals = [Iv 0 2]\<rparr>, \<lparr>variables = [0], intervals = [Iv 2 4]\<rparr>] False)
     (replicate 2 ex_status) =
   Some \<lparr>thrown = [None, None], found = -1,
         status_vector = [ex_status,
           ex_status\<lparr>box := \<lparr>variables = [0], intervals = [EMPTY_SET]\<rparr>, used_constraints := {8}\<rparr>]\<rparr>"
  by (simp add: eval_nat_numeral ex_par_defs)


lemma ex_no_error: "no_error 2 \<lparr>thrown = [None, None], found = f, status_vector = sv\<rparr>"
  by (simp add: no_error_def less_Suc_eq eval_nat_numeral)

text \<open>
  The three cases of claim C4 on the example problem with two jobs: a contractor that
  empties the initial box, a run that finds a delta-SAT box, and a run that refutes
  every box.
\<close>

theorem IcpParallel_CheckSat_result_witness:
  "IcpParallel_CheckSat 5 ((ex_parallel 2 False [ex_unknown])\<lparr>contractor := ex_refute\<rparr>)
      (main_first 5 ((ex_parallel 2 False [ex_unknown])\<lparr>contractor := ex_refute\<rparr>)) False ex_status
     = Some (Inr (False, ex_status\<lparr>box := \<lparr>variables = [0], intervals = [EMPTY_SET]\<rparr>\<rparr>)) \<and>
   IcpParallel_CheckSat 5 (ex_parallel 2 False [ex_unknown])
      (main_first 5 (ex_parallel 2 False [ex_unknown])) False ex_status
     = Some (Inr (True, ex_status\<lparr>box := \<lparr>variables = [0], intervals = [Iv 2 4]\<rparr>\<rparr>)) \<and>
   IcpParallel_CheckSat 5 (ex_parallel 2 False [ex_unknown, ex_unsat])
      (main_first 5 (ex_parallel 2 False [ex_unknown, ex_unsat])) False ex_status
     = Some (Inr (False, ex_status\<lparr>box := \<lparr>variables = [0], intervals = [EMPTY_SET]\<rparr>,
                                  used_constraints := {8}\<rparr>))"
proof -
  let ?b1 = "\<lparr>variables = [0], intervals = [Iv 0 2]\<rparr>"
  let ?b2 = "\<lparr>variables = [0], intervals = [Iv 2 4]\<rparr>"
  let ?pe = "(ex_parallel 2 False [ex_unknown])\<lparr>contractor := ex_refute\<rparr>"
  let ?ps = "ex_parallel 2 False [ex_unknown]"
  let ?pu = "ex_parallel 2 False [ex_unknown, ex_unsat]"
  have cfg: "number_of_jobs (config (ex_parallel 2 chk fes)) = 2"
    "contractor (ex_parallel 2 chk fes) = (\<lambda>cs. cs)"
    "InplaceJoin (ex_parallel 2 chk fes) = ex_join" for chk fes
    by (simp_all add: ex_parallel_def ex_config_def)
  have bx: "box ex_status = ex_box" "\<not> empty_box ex_box"
    by (simp_all add: ex_status_def ex_box_def empty_box_def)
  have a: "IcpParallel_CheckSat 5 ?pe (main_first 5 ?pe) False ex_status
     = Some (Inr (False, ex_status\<lparr>box := \<lparr>variables = [0], intervals = [EMPTY_SET]\<rparr>\<rparr>))"
    using IcpParallel_CheckSat_result[where p = ?pe and ?cs0.0 = ex_status and fuel = 5
        and workers = "main_first 5 ?pe" and interrupted = False]
    by (simp add: ex_refute_def ex_status_def ex_box_def set_empty_def empty_box_def)
  have b: "IcpParallel_CheckSat 5 ?ps (main_first 5 ?ps) False ex_status
     = Some (Inr (True, ex_status\<lparr>box := ?b2\<rparr>))"
    using IcpParallel_CheckSat_result[where p = ?ps and ?cs0.0 = ex_status and fuel = 5
        and workers = "main_first 5 ?ps" and interrupted = False and boxes = "[?b1, ?b2]" and out =
        "\<lparr>thrown = [None, None], found = 1, status_vector = [ex_status, ex_status\<lparr>box := ?b2\<rparr>]\<rparr>"
        and joined = "foldl ex_join ex_status [ex_status, ex_status\<lparr>box := ?b2\<rparr>]"]
      ex_FillUp ex_main_first_sat
    by (simp add: cfg bx ex_join_def ex_status_def ex_no_error)
  have c: "IcpParallel_CheckSat 5 ?pu (main_first 5 ?pu) False ex_status
     = Some (Inr (False, ex_status\<lparr>box := \<lparr>variables = [0], intervals = [EMPTY_SET]\<rparr>,
                                  used_constraints := {8}\<rparr>))"
    using IcpParallel_CheckSat_result[where p = ?pu and ?cs0.0 = ex_status and fuel = 5
        and workers = "main_first 5 ?pu" and interrupted = False and boxes = "[?b1, ?b2]" and out =
        "\<lparr>thrown = [None, None], found = -1,
          status_vector = [ex_status, ex_status\<lparr>box := \<lparr>variables = [0], intervals = [EMPTY_SET]\<rparr>,
             used_constraints := {8}\<rparr>]\<rparr>"
        and joined = "foldl ex_join ex_status [ex_status, ex_status\<lparr>box := \<lparr>variables = [0], intervals = [EMPTY_SET]\<rparr>,
             used_constraints := {8}\<rparr>]"]
      ex_FillUp ex_main_first_unsat
    by (simp add: cfg bx ex_join_def ex_status_def ex_box_def set_empty_def empty_box_def
        ex_no_error)
  from a b c show ?thesis by blast
qed


lemma thrown_propagates:
  assumes "1 \<le> jobs" "length rs = nat jobs" "i < nat jobs" "rs ! i = Some e"
  shows "rs ! (nat jobs - 1) \<noteq> None \<or> first_thrown (take (nat jobs - 1) rs) \<noteq> None"
proof (cases "i = nat jobs - 1")
  case True
  with assms show ?thesis by simp
next
  case False
  with assms have "i < nat jobs - 1" by simp
  with assms have "rs ! i \<in> set (take (nat jobs - 1) rs)"
    by (auto simp: in_set_conv_nth intro!: exI[of _ i])
  with assms(4) show ?thesis by (auto simp: first_thrown_None)
qed

text \<open>
  Claim C5, as the code has it. In a build that defines \<open>DREAL_CHECK_INTERRUPT\<close>, every
  pass of the loop of a worker first looks at the flag \<open>g_interrupted\<close> and throws when
  it is set, so a worker that enters its loop with the flag set ends with the error; in
  a build without the macro no pass throws. An error thrown by a worker leaves
  \<open>CheckSat\<close> as that error, not as a verdict.
\<close>

theorem Worker_interrupt:
  "(check_interrupt p \<and> g_interrupted sh \<longrightarrow> Worker_pass p wid sh w = Inl KeyboardInterrupt) \<and>
   (check_interrupt p \<and> g_interrupted sh \<and> found_delta_sat sh = -1 \<and> 0 < number_of_boxes sh
      \<longrightarrow> Worker_loop (Suc fuel) p wid sh w = Some (Inl KeyboardInterrupt)) \<and>
   (\<not> check_interrupt p \<longrightarrow> Worker_pass p wid sh w \<noteq> Inl KeyboardInterrupt) \<and>
   (\<not> empty_box (box (contractor p cs0)) \<and>
    FillUp fuel' (box (contractor p cs0)) (number_of_jobs (config p)) = Some boxes \<and>
    workers (seeded boxes interrupted) (replicate (nat (number_of_jobs (config p))) (contractor p cs0))
      = Some out \<and>
    1 \<le> number_of_jobs (config p) \<and> length (thrown out) = nat (number_of_jobs (config p)) \<and>
    i < nat (number_of_jobs (config p)) \<and> thrown out ! i = Some KeyboardInterrupt
    \<longrightarrow> IcpParallel_CheckSat fuel' p workers interrupted cs0 = Some (Inl KeyboardInterrupt))"
proof (intro conjI impI)
  assume "check_interrupt p \<and> g_interrupted sh"
  then show "Worker_pass p wid sh w = Inl KeyboardInterrupt"
    by (simp add: Worker_pass_def)
next
  assume "check_interrupt p \<and> g_interrupted sh \<and> found_delta_sat sh = -1 \<and> 0 < number_of_boxes sh"
  then show "Worker_loop (Suc fuel) p wid sh w = Some (Inl KeyboardInterrupt)"
    by (simp add: Worker_pass_def)
next
  assume "\<not> check_interrupt p"
  then show "Worker_pass p wid sh w \<noteq> Inl KeyboardInterrupt"
    by (simp add: Worker_pass_def split: list.split)
next
  let ?jobs = "number_of_jobs (config p)"
  assume a: "\<not> empty_box (box (contractor p cs0)) \<and>
    FillUp fuel' (box (contractor p cs0)) ?jobs = Some boxes \<and>
    workers (seeded boxes interrupted) (replicate (nat ?jobs) (contractor p cs0)) = Some out \<and>
    1 \<le> ?jobs \<and> length (thrown out) = nat ?jobs \<and>
    i < nat ?jobs \<and> thrown out ! i = Some KeyboardInterrupt"
  then have "thrown out ! (nat ?jobs - 1) \<noteq> None \<or>
             first_thrown (take (nat ?jobs - 1) (thrown out)) \<noteq> None"
    using thrown_propagates[of ?jobs "thrown out" i KeyboardInterrupt] by blast
  moreover have "x = Some KeyboardInterrupt" if "x \<noteq> None" for x :: "error option"
    using that by (cases x) (auto intro: error.exhaust)
  ultimately have "thrown out ! (nat ?jobs - 1) = Some KeyboardInterrupt \<or>
     (thrown out ! (nat ?jobs - 1) = None \<and>
      first_thrown (take (nat ?jobs - 1) (thrown out)) = Some KeyboardInterrupt)"
    by blast
  with a show "IcpParallel_CheckSat fuel' p workers interrupted cs0 = Some (Inl KeyboardInterrupt)"
    by (auto simp: IcpParallel_CheckSat_def Let_def)
qed


lemma ex_main_first_interrupted:
  "main_first 5 (ex_parallel 2 True [ex_unknown])
     (seeded [\<lparr>variables = [0], intervals = [Iv 0 2]\<rparr>, \<lparr>variables = [0], intervals = [Iv 2 4]\<rparr>] True)
     (replicate 2 ex_status) =
   Some \<lparr>thrown = [Some KeyboardInterrupt, Some KeyboardInterrupt], found = -1,
         status_vector = [ex_status, ex_status]\<rparr>"
  by (simp add: eval_nat_numeral ex_par_defs)

lemma ex_main_first_not_checked:
  "main_first 5 (ex_parallel 2 False [ex_unknown])
     (seeded [\<lparr>variables = [0], intervals = [Iv 0 2]\<rparr>, \<lparr>variables = [0], intervals = [Iv 2 4]\<rparr>] True)
     (replicate 2 ex_status) =
   Some \<lparr>thrown = [None, None], found = 1,
         status_vector = [ex_status, ex_status\<lparr>box := \<lparr>variables = [0], intervals = [Iv 2 4]\<rparr>\<rparr>]\<rparr>"
  by (simp add: eval_nat_numeral ex_par_defs)

text \<open>
  Claim C5 as stated (every pass checks the flag) fails in a build without the macro:
  with the flag set throughout, the first pass of a worker does not throw, and
  \<open>CheckSat\<close> on the example problem returns true.
\<close>

theorem interrupt_not_checked_without_macro:
  "g_interrupted (seeded [ex_box] True) \<and>
   found_delta_sat (seeded [ex_box] True) = -1 \<and> 0 < number_of_boxes (seeded [ex_box] True) \<and>
   Worker_pass (ex_parallel 1 False [ex_unknown]) 0 (seeded [ex_box] True)
     \<lparr>worker_status = ex_status, worker_left_box_first = False, need_to_pop = True\<rparr>
     \<noteq> Inl KeyboardInterrupt \<and>
   IcpParallel_CheckSat 5 (ex_parallel 2 False [ex_unknown])
      (main_first 5 (ex_parallel 2 False [ex_unknown])) True ex_status
     = Some (Inr (True, ex_status\<lparr>box := \<lparr>variables = [0], intervals = [Iv 2 4]\<rparr>\<rparr>))"
proof -
  have "IcpParallel_CheckSat 5 (ex_parallel 2 False [ex_unknown])
      (main_first 5 (ex_parallel 2 False [ex_unknown])) True ex_status
     = Some (Inr (True, ex_status\<lparr>box := \<lparr>variables = [0], intervals = [Iv 2 4]\<rparr>\<rparr>))"
    using ex_FillUp ex_main_first_not_checked
    by (simp add: IcpParallel_CheckSat_def join_and_decide_def first_thrown_def
        ex_parallel_def ex_config_def ex_status_def ex_box_def empty_box_def ex_join_def)
  then show ?thesis
    by (simp add: seeded_def Worker_pass_def ex_parallel_def)
qed

text \<open>
  The four parts of the amended claim on the example problem, the flag set throughout.
\<close>

theorem Worker_interrupt_witness:
  "Worker_pass (ex_parallel 2 True [ex_unknown]) 1 (seeded [ex_box] True)
     \<lparr>worker_status = ex_status, worker_left_box_first = False, need_to_pop = True\<rparr>
     = Inl KeyboardInterrupt \<and>
   Worker_loop (Suc 0) (ex_parallel 2 True [ex_unknown]) 1 (seeded [ex_box] True)
     \<lparr>worker_status = ex_status, worker_left_box_first = False, need_to_pop = True\<rparr>
     = Some (Inl KeyboardInterrupt) \<and>
   Worker_pass (ex_parallel 2 False [ex_unknown]) 1 (seeded [ex_box] True)
     \<lparr>worker_status = ex_status, worker_left_box_first = False, need_to_pop = True\<rparr>
     \<noteq> Inl KeyboardInterrupt \<and>
   IcpParallel_CheckSat 5 (ex_parallel 2 True [ex_unknown])
      (main_first 5 (ex_parallel 2 True [ex_unknown])) True ex_status
     = Some (Inl KeyboardInterrupt)"
proof -
  let ?b1 = "\<lparr>variables = [0], intervals = [Iv 0 2]\<rparr>"
  let ?b2 = "\<lparr>variables = [0], intervals = [Iv 2 4]\<rparr>"
  let ?w = "\<lparr>worker_status = ex_status, worker_left_box_first = False, need_to_pop = True\<rparr>"
  let ?pt = "ex_parallel 2 True [ex_unknown]"
  let ?pf = "ex_parallel 2 False [ex_unknown]"
  have chk: "check_interrupt (ex_parallel 2 c fes) = c"
    "number_of_jobs (config (ex_parallel 2 c fes)) = 2"
    "contractor (ex_parallel 2 c fes) = (\<lambda>cs. cs)" for c fes
    by (simp_all add: ex_parallel_def ex_config_def)
  have sh: "g_interrupted (seeded [ex_box] True)" "found_delta_sat (seeded [ex_box] True) = -1"
    "0 < number_of_boxes (seeded [ex_box] True)"
    by (simp_all add: seeded_def)
  have bx: "box ex_status = ex_box" "\<not> empty_box ex_box"
    by (simp_all add: ex_status_def ex_box_def empty_box_def)
  have a: "Worker_pass ?pt 1 (seeded [ex_box] True) ?w = Inl KeyboardInterrupt"
    using Worker_interrupt[where p = ?pt and sh = "seeded [ex_box] True" and wid = 1 and w = ?w]
      chk sh by simp
  have b: "Worker_loop (Suc 0) ?pt 1 (seeded [ex_box] True) ?w = Some (Inl KeyboardInterrupt)"
    using Worker_interrupt[where p = ?pt and sh = "seeded [ex_box] True" and wid = 1 and w = ?w
        and fuel = 0] chk sh by simp
  have c: "Worker_pass ?pf 1 (seeded [ex_box] True) ?w \<noteq> Inl KeyboardInterrupt"
    using Worker_interrupt[where p = ?pf and sh = "seeded [ex_box] True" and wid = 1 and w = ?w]
      chk by simp
  have d: "IcpParallel_CheckSat 5 ?pt (main_first 5 ?pt) True ex_status = Some (Inl KeyboardInterrupt)"
    using Worker_interrupt[where p = ?pt and ?cs0.0 = ex_status and fuel' = 5
        and workers = "main_first 5 ?pt" and interrupted = True and boxes = "[?b1, ?b2]"
        and i = 0 and out = "\<lparr>thrown = [Some KeyboardInterrupt, Some KeyboardInterrupt],
          found = -1, status_vector = [ex_status, ex_status]\<rparr>"]
      ex_FillUp ex_main_first_interrupted
    by (simp add: chk bx)
  from a b c d show ?thesis by blast
qed

section \<open>The polytope contractor\<close>

lemma foldl_AddUsedConstraint:
  "foldl AddUsedConstraint cs fs = cs\<lparr>used_constraints := used_constraints cs \<union> set fs\<rparr>"
  by (induction fs arbitrary: cs) (auto simp: AddUsedConstraint_def)

lemma foldl_update_output:
  "n \<le> length old_iv \<Longrightarrow>
   foldl (update_output old_iv iv) (out, ch) [0..<n] =
     (out \<union> {i. i < n \<and> old_iv ! i \<noteq> iv ! i}, ch \<or> (\<exists>i<n. old_iv ! i \<noteq> iv ! i))"
proof (induction n arbitrary: out ch)
  case 0
  then show ?case by simp
next
  case (Suc n)
  have s: "{i. i < Suc n \<and> P i} = (if P n then insert n {i. i < n \<and> P i} else {i. i < n \<and> P i})" for P
    by (auto simp: less_Suc_eq)
  from Suc show ?case
    by (auto simp: update_output_def s less_Suc_eq)
qed

lemma Prune_eq:
  "ContractorIbexPolytope_Prune c cs =
     (let old_iv = intervals (box cs); iv = ctc_contract c old_iv;
          b' = (box cs)\<lparr>intervals := iv\<rparr> in
      if empty_box b'
      then cs\<lparr>box := b', cs_output := cs_output cs \<union> {0..<length iv},
              used_constraints := used_constraints cs \<union> set (polytope_formulas c)\<rparr>
      else if changed_dimensions old_iv iv \<noteq> {}
      then cs\<lparr>box := b', cs_output := cs_output cs \<union> changed_dimensions old_iv iv,
              used_constraints := used_constraints cs \<union> set (polytope_formulas c)\<rparr>
      else cs\<lparr>box := b'\<rparr>)"
proof -
  let ?old = "intervals (box cs)"
  let ?iv = "ctc_contract c ?old"
  have e: "(\<exists>i<length ?old. ?old ! i \<noteq> ?iv ! i) = (changed_dimensions ?old ?iv \<noteq> {})"
    by (auto simp: changed_dimensions_def)
  have c: "{i. i < length ?old \<and> ?old ! i \<noteq> ?iv ! i} = changed_dimensions ?old ?iv"
    by (simp add: changed_dimensions_def)
  show ?thesis
    by (simp add: ContractorIbexPolytope_Prune_def Let_def foldl_update_output
        AddUsedConstraints_def foldl_AddUsedConstraint size_box_def e c)
qed


text \<open>
  Claim C8, as the code has it. \<open>Prune\<close> replaces the intervals of the box by what the
  contractor of the library returns. When the box is not empty afterwards, the output
  gains exactly the dimensions whose interval changed, and the output and the used
  constraints are untouched when no interval changed. When the box is empty afterwards,
  whether or not it was empty before, the output gains every dimension of the box.
  Whenever the box is empty afterwards or some interval changed, all the formulas of the
  contractor are added to the used constraints.
\<close>

theorem ContractorIbexPolytope_Prune_effect:
  "intervals (box (ContractorIbexPolytope_Prune c cs)) = ctc_contract c (intervals (box cs)) \<and>
   (\<not> empty_box (box (ContractorIbexPolytope_Prune c cs)) \<longrightarrow>
      cs_output (ContractorIbexPolytope_Prune c cs) =
        cs_output cs \<union> changed_dimensions (intervals (box cs)) (ctc_contract c (intervals (box cs)))) \<and>
   (empty_box (box (ContractorIbexPolytope_Prune c cs)) \<longrightarrow>
      cs_output (ContractorIbexPolytope_Prune c cs) =
        cs_output cs \<union> {0..<size_box (box (ContractorIbexPolytope_Prune c cs))}) \<and>
   (empty_box (box (ContractorIbexPolytope_Prune c cs)) \<or>
    changed_dimensions (intervals (box cs)) (ctc_contract c (intervals (box cs))) \<noteq> {} \<longrightarrow>
      used_constraints (ContractorIbexPolytope_Prune c cs) =
        used_constraints cs \<union> set (polytope_formulas c)) \<and>
   (\<not> empty_box (box (ContractorIbexPolytope_Prune c cs)) \<and>
    changed_dimensions (intervals (box cs)) (ctc_contract c (intervals (box cs))) = {} \<longrightarrow>
      cs_output (ContractorIbexPolytope_Prune c cs) = cs_output cs \<and>
      used_constraints (ContractorIbexPolytope_Prune c cs) = used_constraints cs)"
  by (simp add: Prune_eq Let_def size_box_def)


text \<open>
  Claim C8 as stated (for every status, the output gains exactly the dimensions that
  changed, and nothing is touched when none changed) fails on a status whose box is
  already empty: the contraction changes no interval, and \<open>Prune\<close> adds dimension 0 to
  the output and the formulas to the used constraints.
\<close>

theorem Prune_on_empty_box_reports_change:
  "changed_dimensions (intervals (box ex_empty_status))
     (ctc_contract (ex_polytope (\<lambda>iv. iv)) (intervals (box ex_empty_status))) = {} \<and>
   cs_output ex_empty_status = {} \<and> used_constraints ex_empty_status = {} \<and>
   cs_output (ContractorIbexPolytope_Prune (ex_polytope (\<lambda>iv. iv)) ex_empty_status) = {0} \<and>
   used_constraints (ContractorIbexPolytope_Prune (ex_polytope (\<lambda>iv. iv)) ex_empty_status) = {7, 8}"
  by (auto simp: Prune_eq ex_polytope_def ex_empty_status_def changed_dimensions_def empty_box_def)

text \<open>
  The cases of the amended claim on the box \<open>x \<in> [0, 4]\<close>: a contraction to \<open>[1, 2]\<close>, a
  contraction to the empty box, and a contraction that changes nothing.
\<close>

theorem ContractorIbexPolytope_Prune_effect_witness:
  "ContractorIbexPolytope_Prune (ex_polytope (\<lambda>iv. [Iv 1 2])) ex_status =
     ex_status\<lparr>box := \<lparr>variables = [0], intervals = [Iv 1 2]\<rparr>, cs_output := {0},
                used_constraints := {7, 8}\<rparr> \<and>
   ContractorIbexPolytope_Prune (ex_polytope (\<lambda>iv. [EMPTY_SET])) ex_status =
     ex_status\<lparr>box := \<lparr>variables = [0], intervals = [EMPTY_SET]\<rparr>, cs_output := {0},
                used_constraints := {7, 8}\<rparr> \<and>
   ContractorIbexPolytope_Prune (ex_polytope (\<lambda>iv. iv)) ex_status = ex_status"
proof -
  have ch: "changed_dimensions [Iv 0 4] [Iv 1 2] = {0}" "changed_dimensions [Iv 0 4] [Iv 0 4] = {}"
    by (auto simp: changed_dimensions_def)
  have eq: "cs' = ex_status\<lparr>box := \<lparr>variables = [0], intervals = ivs\<rparr>, cs_output := out,
                used_constraints := used\<rparr>"
    if "intervals (box cs') = ivs" "cs_output cs' = out" "used_constraints cs' = used"
      "variables (box cs') = [0]" "branching_point cs' = -1" for cs' ivs out used
    using that by (cases cs', cases "box cs'") (auto simp: ex_status_def)
  have fr: "variables (box (ContractorIbexPolytope_Prune c cs)) = variables (box cs)"
    "branching_point (ContractorIbexPolytope_Prune c cs) = branching_point cs" for c and cs :: "nat ContractorStatus"
    by (simp_all add: Prune_eq Let_def)
  have st: "intervals (box ex_status) = [Iv 0 4]" "cs_output ex_status = {}"
    "used_constraints ex_status = {}" "variables (box ex_status) = [0]"
    "branching_point ex_status = -1"
    by (simp_all add: ex_status_def ex_box_def)
  have a: "ContractorIbexPolytope_Prune (ex_polytope (\<lambda>iv. [Iv 1 2])) ex_status =
     ex_status\<lparr>box := \<lparr>variables = [0], intervals = [Iv 1 2]\<rparr>, cs_output := {0},
                used_constraints := {7, 8}\<rparr>"
    using ContractorIbexPolytope_Prune_effect[of "ex_polytope (\<lambda>iv. [Iv 1 2])" ex_status]
    by (intro eq) (auto simp: fr st ch ex_polytope_def empty_box_def)
  have b: "ContractorIbexPolytope_Prune (ex_polytope (\<lambda>iv. [EMPTY_SET])) ex_status =
     ex_status\<lparr>box := \<lparr>variables = [0], intervals = [EMPTY_SET]\<rparr>, cs_output := {0},
                used_constraints := {7, 8}\<rparr>"
    using ContractorIbexPolytope_Prune_effect[of "ex_polytope (\<lambda>iv. [EMPTY_SET])" ex_status]
    by (intro eq) (auto simp: fr st ex_polytope_def empty_box_def size_box_def)
  have "ContractorIbexPolytope_Prune (ex_polytope (\<lambda>iv. iv)) ex_status =
     ex_status\<lparr>box := \<lparr>variables = [0], intervals = [Iv 0 4]\<rparr>, cs_output := {},
                used_constraints := {}\<rparr>"
    using ContractorIbexPolytope_Prune_effect[of "ex_polytope (\<lambda>iv. iv)" ex_status]
    by (intro eq) (auto simp: fr st ch ex_polytope_def empty_box_def)
  then have c: "ContractorIbexPolytope_Prune (ex_polytope (\<lambda>iv. iv)) ex_status = ex_status"
    by (simp add: ex_status_def ex_box_def)
  from a b c show ?thesis by blast
qed

section \<open>The multi-thread forward-backward contractor\<close>

lemma slot_0_not_ready:
  "ctc_ready m \<noteq> [] \<Longrightarrow> ctc_ready m ! 0 = 0 \<Longrightarrow> slot_0 True m = Inl AssertionViolation"
  by (simp add: slot_0_def)

lemma slot_0_ready:
  "ctc_ready m \<noteq> [] \<Longrightarrow> ctc_ready m ! 0 \<noteq> 0 \<Longrightarrow> ctcs m \<noteq> [] \<Longrightarrow> ctcs m ! 0 = Some ctc
   \<Longrightarrow> slot_0 debug m = Inr ctc"
  by (simp add: slot_0_def)

lemma GetCtcOrCreate_slot_0:
  assumes "GetCtcOrCreate mk tid b m = Inr (c, m')"
  shows "(tid \<noteq> 0 \<longrightarrow> ctc_ready m' ! 0 = ctc_ready m ! 0 \<and> ctcs m' ! 0 = ctcs m ! 0) \<and>
         (tid = 0 \<longrightarrow> ctc_ready m' ! 0 \<noteq> 0)"
  using assms
  by (auto simp: GetCtcOrCreate_def Let_def split: if_splits)

lemma Prune_GetCtcOrCreate:
  assumes "ContractorIbexFwdbwdMt_Prune debug mk tid cs m = Inr (cs', m')"
  shows "\<exists>c. GetCtcOrCreate mk tid (box cs) m = Inr (c, m')"
  using assms
  by (auto simp: ContractorIbexFwdbwdMt_Prune_def split: sum.splits bool.splits option.splits
      prod.splits if_splits)

text \<open>
  Claim C10. On the lazily populated \<open>ContractorIbexFwdbwdMt\<close>, \<open>input()\<close>,
  \<open>mutable_input()\<close> and \<open>is_dummy()\<close> violate their debug assertion as long as
  \<open>ctc_ready_[0]\<close> is 0, which is the case on a new object; a \<open>Prune\<close> that returns
  leaves \<open>ctc_ready_[0]\<close> as it was when made on a thread other than thread 0 and sets
  it when made on thread 0; and once slot 0 is ready and filled the three accessors
  return what the contractor of slot 0 gives.
\<close>

theorem accessors_need_slot_0:
  "(ctc_ready m \<noteq> [] \<and> ctc_ready m ! 0 = 0 \<longrightarrow>
      input True m = Inl AssertionViolation \<and> mutable_input True m = Inl AssertionViolation \<and>
      is_dummy True m = Inl AssertionViolation) \<and>
   (1 \<le> number_of_jobs cfg \<longrightarrow>
      input True (ContractorIbexFwdbwdMt_new f b cfg) = Inl AssertionViolation \<and>
      mutable_input True (ContractorIbexFwdbwdMt_new f b cfg) = Inl AssertionViolation \<and>
      is_dummy True (ContractorIbexFwdbwdMt_new f b cfg) = Inl AssertionViolation) \<and>
   (ContractorIbexFwdbwdMt_Prune debug mk tid cs m = Inr (cs', m') \<longrightarrow>
      (tid \<noteq> 0 \<longrightarrow> ctc_ready m' ! 0 = ctc_ready m ! 0) \<and> (tid = 0 \<longrightarrow> ctc_ready m' ! 0 \<noteq> 0)) \<and>
   (ctc_ready m \<noteq> [] \<and> ctc_ready m ! 0 \<noteq> 0 \<and> ctcs m \<noteq> [] \<and> ctcs m ! 0 = Some ctc \<longrightarrow>
      input debug m = Inr (fwdbwd_input ctc) \<and> mutable_input debug m = Inr (fwdbwd_input ctc) \<and>
      is_dummy debug m = Inr (fwdbwd_is_dummy ctc))"
proof (intro conjI impI)
  assume "ContractorIbexFwdbwdMt_Prune debug mk tid cs m = Inr (cs', m')"
  then obtain c where g: "GetCtcOrCreate mk tid (box cs) m = Inr (c, m')"
    using Prune_GetCtcOrCreate by blast
  { assume "tid \<noteq> 0"
    with GetCtcOrCreate_slot_0[OF g] show "ctc_ready m' ! 0 = ctc_ready m ! 0" by simp }
  { assume "tid = 0"
    with GetCtcOrCreate_slot_0[OF g] show "ctc_ready m' ! 0 \<noteq> 0" by simp }
qed (simp_all add: input_def mutable_input_def is_dummy_def slot_0_not_ready slot_0_ready
      ContractorIbexFwdbwdMt_new_def slot_0_def)

text \<open>In a debug build the first \<open>Prune\<close> on a new object fails its own assertion.\<close>

lemma Prune_on_new_object_debug:
  "1 \<le> number_of_jobs cfg \<Longrightarrow>
   ContractorIbexFwdbwdMt_Prune True mk tid cs (ContractorIbexFwdbwdMt_new f b cfg)
     = Inl AssertionViolation"
  by (simp add: ContractorIbexFwdbwdMt_Prune_def is_dummy_def slot_0_def
      ContractorIbexFwdbwdMt_new_def)

lemma Prune_on_new_object_release:
  "int tid < number_of_jobs cfg \<Longrightarrow>
   ContractorIbexFwdbwdMt_Prune False mk tid cs (ContractorIbexFwdbwdMt_new f b cfg)
     = Inr (fwdbwd_Prune (mk f (box cs) cfg) cs,
            (ContractorIbexFwdbwdMt_new f b cfg)
              \<lparr>ctcs := (replicate (nat (number_of_jobs cfg)) None)[tid := Some (mk f (box cs) cfg)],
               ctc_ready := (replicate (nat (number_of_jobs cfg)) 0)[tid := 1]\<rparr>)"
  by (simp add: ContractorIbexFwdbwdMt_Prune_def GetCtcOrCreate_def
      ContractorIbexFwdbwdMt_new_def Let_def)


lemma ex_mt_Prune:
  "ContractorIbexFwdbwdMt_Prune False ex_make 0 ex_status ex_mt =
     Inr (ex_status, ex_mt\<lparr>ctcs := [Some (ex_make 7 ex_box (mt_config ex_mt)), None],
                          ctc_ready := [1, 0]\<rparr>)"
  "ContractorIbexFwdbwdMt_Prune False ex_make 1 ex_status ex_mt =
     Inr (ex_status, ex_mt\<lparr>ctcs := [None, Some (ex_make 7 ex_box (mt_config ex_mt))],
                          ctc_ready := [0, 1]\<rparr>)"
  by (simp_all add: ContractorIbexFwdbwdMt_Prune_def GetCtcOrCreate_def ex_mt_def
      ContractorIbexFwdbwdMt_new_def ex_config_def ex_make_def ex_status_def Let_def
      eval_nat_numeral)

text \<open>
  Claim C10 on an object with two slots: the accessors on the new object, after a first
  \<open>Prune\<close> on thread 1, and after a first \<open>Prune\<close> on thread 0 (of a release build;
  a debug build stops at the assertion of \<open>Prune\<close> itself, as the lemma above shows).
\<close>

theorem accessors_need_slot_0_witness:
  "input True ex_mt = Inl AssertionViolation \<and>
   mutable_input True ex_mt = Inl AssertionViolation \<and>
   is_dummy True ex_mt = Inl AssertionViolation \<and>
   ctc_ready (ex_mt_pruned 1) ! 0 = 0 \<and>
   input True (ex_mt_pruned 1) = Inl AssertionViolation \<and>
   ctc_ready (ex_mt_pruned 0) ! 0 \<noteq> 0 \<and>
   input True (ex_mt_pruned 0) = Inr {0} \<and>
   mutable_input True (ex_mt_pruned 0) = Inr {0} \<and>
   is_dummy True (ex_mt_pruned 0) = Inr False"
proof -
  note not_ready = accessors_need_slot_0[THEN conjunct1, THEN mp]
  note new_object = accessors_need_slot_0[THEN conjunct2, THEN conjunct1, THEN mp]
  note pruned = accessors_need_slot_0[THEN conjunct2, THEN conjunct2, THEN conjunct1, THEN mp]
  note ready = accessors_need_slot_0[THEN conjunct2, THEN conjunct2, THEN conjunct2, THEN mp]
  have j: "1 \<le> number_of_jobs ((ex_config MaxDiam)\<lparr>number_of_jobs := 2\<rparr>)"
    by simp
  have new: "input True ex_mt = Inl AssertionViolation \<and>
      mutable_input True ex_mt = Inl AssertionViolation \<and>
      is_dummy True ex_mt = Inl AssertionViolation"
    unfolding ex_mt_def by (rule new_object[OF j])
  have r0: "ctc_ready ex_mt ! 0 = 0"
    by (simp add: ex_mt_def ContractorIbexFwdbwdMt_new_def ex_config_def eval_nat_numeral)
  have p1: "ContractorIbexFwdbwdMt_Prune False ex_make 1 ex_status ex_mt
      = Inr (ex_status, ex_mt_pruned 1)"
    and p0: "ContractorIbexFwdbwdMt_Prune False ex_make 0 ex_status ex_mt
      = Inr (ex_status, ex_mt_pruned 0)"
    unfolding ex_mt_pruned_def ex_mt_Prune by simp_all
  have s1: "ctc_ready (ex_mt_pruned 1) ! 0 = 0"
    using pruned[OF p1] r0 by simp
  have ne1: "ctc_ready (ex_mt_pruned 1) \<noteq> []"
    unfolding ex_mt_pruned_def ex_mt_Prune by simp
  have a1: "input True (ex_mt_pruned 1) = Inl AssertionViolation"
    using not_ready[of "ex_mt_pruned 1"] s1 ne1 by blast
  have s0: "ctc_ready (ex_mt_pruned 0) ! 0 \<noteq> 0"
    using pruned[OF p0] by simp
  have sl: "ctc_ready (ex_mt_pruned 0) \<noteq> []" "ctcs (ex_mt_pruned 0) \<noteq> []"
    "ctcs (ex_mt_pruned 0) ! 0 = Some (ex_make 7 ex_box (mt_config ex_mt))"
    unfolding ex_mt_pruned_def ex_mt_Prune by simp_all
  have a0: "input True (ex_mt_pruned 0) = Inr {0} \<and> mutable_input True (ex_mt_pruned 0) = Inr {0} \<and>
     is_dummy True (ex_mt_pruned 0) = Inr False"
    using ready[of "ex_mt_pruned 0" "ex_make 7 ex_box (mt_config ex_mt)" True] s0 sl
    by (simp add: ex_make_def)
  from new s1 a1 s0 a0 show ?thesis by blast
qed

section \<open>The interval evaluator and the Taylor forms\<close>

lemmas ex_taylor_defs =
  Taylor1Eval_def Taylor2Eval_def Taylor2_second_order_def Taylor1_term_def
  Taylor2_first_order_term_def Taylor2_second_order_term_def Eval_def Mid_def
  ex_D_def ex_square_def ex_double_def ex_box2_def ex_library_def
  unary_def binary_def pow_of_def is_integer_def int_lowest_def int_max_def modf_def
  static_cast_int_def iv_point_def
  box_at_var_def box_at_def index_def size_box_def

lemma ex_Eval_square: "Eval ex_library ex_square ex_box2 = Inr (Iv 0 4)"
  by (simp add: ex_taylor_defs)

lemma ex_Taylor1_term:
  "Taylor1_term ex_library ex_D ex_square ex_box2 (Mid ex_box2) 0 = Inr (Iv (-4) 4)"
  by (simp add: ex_taylor_defs)

lemma ex_Taylor2_term:
  "Taylor2_first_order_term ex_library ex_D ex_square ex_box2 (Mid ex_box2) 0 = Inr (Iv (-2) 2)"
  by (simp add: ex_taylor_defs)

lemma ex_Taylor1: "Taylor1Eval ex_library ex_D ex_square ex_box2 = Inr (Iv (-3) 5)"
  by (simp add: ex_taylor_defs)

lemma ex_Taylor2: "Taylor2Eval ex_library ex_D ex_square ex_box2 = Inr (Iv (-2) 4)"
  by (simp add: ex_taylor_defs)

lemma ex_Taylor12:
  "Taylor2_second_order ex_library ex_D ex_square ex_box2 (Inr (Iv (-3) 5)) = Inr (Iv (-4) 6)"
  by (simp add: ex_taylor_defs)


text \<open>
  Claim C6. \<open>Taylor2Eval\<close> is said to be \<open>Taylor1Eval\<close> plus the second-order terms, its
  first-order part built from the derivatives evaluated over the whole box, as the
  comment in \<open>Taylor2Eval\<close> also has it. The code evaluates the first derivatives of
  \<open>Taylor2Eval\<close> over the box of the midpoints. For \<open>f = x\<^sup>2\<close> on \<open>x \<in> [0, 2]\<close> the
  first-order term is \<open>[0, 4] \<cdot> [-1, 1]\<close> in \<open>Taylor1Eval\<close> and \<open>[2, 2] \<cdot> [-1, 1]\<close> in
  \<open>Taylor2Eval\<close>; \<open>Taylor1Eval\<close> gives \<open>[-3, 5]\<close>, the second-order loop run from it
  gives \<open>[-4, 6]\<close>, and \<open>Taylor2Eval\<close> gives \<open>[-2, 4]\<close>.
\<close>

theorem Taylor2Eval_first_order_at_midpoint:
  "Taylor1_term ex_library ex_D ex_square ex_box2 (Mid ex_box2) 0 = Inr (Iv (-4) 4) \<and>
   Taylor2_first_order_term ex_library ex_D ex_square ex_box2 (Mid ex_box2) 0 = Inr (Iv (-2) 2) \<and>
   Taylor1Eval ex_library ex_D ex_square ex_box2 = Inr (Iv (-3) 5) \<and>
   Taylor2_second_order ex_library ex_D ex_square ex_box2
     (Taylor1Eval ex_library ex_D ex_square ex_box2) = Inr (Iv (-4) 6) \<and>
   Taylor2Eval ex_library ex_D ex_square ex_box2 = Inr (Iv (-2) 4)"
  by (simp add: ex_Taylor1_term ex_Taylor2_term ex_Taylor1 ex_Taylor2 ex_Taylor12)

lemma static_cast_int_of_int:
  "int_lowest \<le> n \<Longrightarrow> n \<le> int_max \<Longrightarrow> sint (static_cast_int (of_int n)) = n"
  by (simp add: static_cast_int_def int_lowest_def int_max_def sint_sbintrunc'
      signed_take_bit_int_eq_self_iff)

lemma is_integer_of_int: "is_integer (of_int n) \<longleftrightarrow> int_lowest \<le> n \<and> n \<le> int_max"
  by (simp add: is_integer_def modf_def)

lemma is_integer_Ints: "is_integer v \<Longrightarrow> v \<in> \<int>"
proof -
  assume "is_integer v"
  then have "v = (if v < 0 then of_int \<lceil>v\<rceil> else of_int \<lfloor>v\<rfloor>)"
    by (simp add: is_integer_def modf_def Let_def split: if_splits)
  then show "v \<in> \<int>"
    by (metis Ints_of_int)
qed

text \<open>
  Claim C7, as the code has it. For every base \<open>e1\<close>, exponent \<open>e2\<close> and box, \<open>VisitPow\<close>
  evaluates the base and then the exponent, and looks at the interval of the exponent.
  When it is not empty and is the single point of an integer \<open>n\<close> within the range of
  \<open>int\<close>, the result is \<open>sqr\<close> of the interval of the base for \<open>n = 2\<close> and the integer
  power \<open>pow(base, n)\<close> for every other such \<open>n\<close>. When the point is an integer outside
  the range of \<open>int\<close>, or is not an integer, the result is \<open>pow(base, point)\<close>, the power
  with a real exponent. When the interval of the exponent is empty or is not a single
  point, the result is \<open>pow(base, exponent)\<close>, the power with an interval exponent. An
  exception of the base or of the exponent is the exception of \<open>VisitPow\<close>, the base
  first.
\<close>

theorem VisitPow_choice:
  "Visit L (E_Pow e1 e2) b = VisitPow L e1 e2 b \<and>
   (Visit L e1 b = Inr first \<and> Visit L e2 b = Inr second \<longrightarrow>
      VisitPow L e1 e2 b =
        Inr (if \<not> is_empty second \<and> is_degenerated second \<and> is_integer (lb second)
             then (if lb second = 2 then iv_sqr L first
                   else iv_pow_int L first (sint (static_cast_int (lb second))))
             else if \<not> is_empty second \<and> is_degenerated second
             then iv_pow_real L first (lb second)
             else iv_pow L first second)) \<and>
   (Visit L e1 b = Inr first \<and> Visit L e2 b = Inr (Iv (of_int n) (of_int n)) \<and>
    int_lowest \<le> n \<and> n \<le> int_max \<longrightarrow>
      VisitPow L e1 e2 b = Inr (if n = 2 then iv_sqr L first else iv_pow_int L first n)) \<and>
   (Visit L e1 b = Inr first \<and> Visit L e2 b = Inr (Iv (of_int n) (of_int n)) \<and>
    (n < int_lowest \<or> int_max < n) \<longrightarrow>
      VisitPow L e1 e2 b = Inr (iv_pow_real L first (of_int n))) \<and>
   (Visit L e1 b = Inr first \<and> Visit L e2 b = Inr (Iv v v) \<and> v \<notin> \<int> \<longrightarrow>
      VisitPow L e1 e2 b = Inr (iv_pow_real L first v)) \<and>
   (Visit L e1 b = Inr first \<and> Visit L e2 b = Inr second \<and>
    (is_empty second \<or> \<not> is_degenerated second) \<longrightarrow>
      VisitPow L e1 e2 b = Inr (iv_pow L first second)) \<and>
   (Visit L e1 b = Inl e \<longrightarrow> VisitPow L e1 e2 b = Inl e) \<and>
   (Visit L e1 b = Inr first \<and> Visit L e2 b = Inl e \<longrightarrow> VisitPow L e1 e2 b = Inl e)"
proof (intro conjI impI)
  assume a: "Visit L e1 b = Inr first \<and> Visit L e2 b = Inr (Iv (of_int n) (of_int n)) \<and>
    int_lowest \<le> n \<and> n \<le> int_max"
  moreover have "(real_of_int n = 2) = (n = 2)"
    by (metis of_int_eq_iff of_int_numeral)
  ultimately show "VisitPow L e1 e2 b = Inr (if n = 2 then iv_sqr L first else iv_pow_int L first n)"
    by (simp add: binary_def pow_of_def is_integer_of_int static_cast_int_of_int)
next
  assume "Visit L e1 b = Inr first \<and> Visit L e2 b = Inr (Iv (of_int n) (of_int n)) \<and>
    (n < int_lowest \<or> int_max < n)"
  then show "VisitPow L e1 e2 b = Inr (iv_pow_real L first (of_int n))"
    by (auto simp: binary_def pow_of_def is_integer_of_int)
next
  assume "Visit L e1 b = Inr first \<and> Visit L e2 b = Inr (Iv v v) \<and> v \<notin> \<int>"
  then show "VisitPow L e1 e2 b = Inr (iv_pow_real L first v)"
    using is_integer_Ints[of v] by (auto simp: binary_def pow_of_def)
qed (auto simp: binary_def pow_of_def Let_def)

text \<open>
  Claim C7 as stated (the integer power for every integer point other than 2) fails for
  an integer that is not an \<open>int\<close>: the exponent \<open>2147483648\<close> is a single integer
  point, \<open>is_integer\<close> is false for it, and \<open>VisitPow\<close> returns the power with the real
  exponent, which in the library of the examples is not the integer power.
\<close>

theorem VisitPow_integer_point_outside_int:
  "Visit ex_library (E_Constant 2147483648) ex_box2 = Inr (Iv 2147483648 2147483648) \<and>
   2147483648 \<in> (\<int> :: real set) \<and>
   \<not> is_integer 2147483648 \<and>
   VisitPow ex_library (E_Constant 1) (E_Constant 2147483648) ex_box2
     = Inr (iv_pow_real ex_library (Iv 1 1) 2147483648) \<and>
   VisitPow ex_library (E_Constant 1) (E_Constant 2147483648) ex_box2
     \<noteq> Inr (iv_pow_int ex_library (Iv 1 1) 2147483648)"
  by (simp add: iv_point_def binary_def pow_of_def is_integer_def int_lowest_def int_max_def
      ex_library_def)

text \<open>
  The amended claim on the box \<open>x \<in> [0, 2]\<close>: the exponents 2, 3, the two bounds of
  \<open>int\<close>, the integer above the upper bound, 1/2, \<open>[1, 2]\<close> and the empty interval, and
  an exception in the base and in the exponent.
\<close>

theorem VisitPow_choice_witness:
  "VisitPow ex_library (E_Variable 0) (E_Constant 2) ex_box2 = Inr (Iv 0 4) \<and>
   VisitPow ex_library (E_Variable 0) (E_Constant 3) ex_box2 = Inr (Iv 0 8) \<and>
   VisitPow ex_library (E_Variable 0) (E_Constant 2147483647) ex_box2
     = Inr (iv_pow_int ex_library (Iv 0 2) 2147483647) \<and>
   VisitPow ex_library (E_Variable 0) (E_Constant (- 2147483648)) ex_box2
     = Inr (iv_pow_int ex_library (Iv 0 2) (- 2147483648)) \<and>
   VisitPow ex_library (E_Variable 0) (E_Constant 2147483648) ex_box2
     = Inr (iv_pow_real ex_library (Iv 0 2) 2147483648) \<and>
   VisitPow ex_library (E_Variable 0) (E_Constant (1 / 2)) ex_box2
     = Inr (iv_pow_real ex_library (Iv 0 2) (1 / 2)) \<and>
   VisitPow ex_library (E_Variable 0) (E_RealConstant 1 2) ex_box2
     = Inr (iv_pow ex_library (Iv 0 2) (Iv 1 2)) \<and>
   VisitPow ex_library (E_Variable 0) (E_RealConstant 2 1) ex_box2
     = Inr (iv_pow ex_library (Iv 0 2) EMPTY_SET) \<and>
   VisitPow ex_library E_NaN (E_Constant 2) ex_box2 = Inl NaNDetected \<and>
   VisitPow ex_library (E_Variable 0) (E_IfThenElse 0 (E_Constant 1) (E_Constant 2)) ex_box2
     = Inl IfThenElseNotSupported"
proof -
  note general = VisitPow_choice[THEN conjunct2, THEN conjunct1, THEN mp, OF conjI]
  note integer = VisitPow_choice[THEN conjunct2, THEN conjunct2, THEN conjunct1, THEN mp]
  note outside = VisitPow_choice[THEN conjunct2, THEN conjunct2, THEN conjunct2, THEN conjunct1,
    THEN mp]
  note fraction = VisitPow_choice[THEN conjunct2, THEN conjunct2, THEN conjunct2, THEN conjunct2,
    THEN conjunct1, THEN mp]
  note interval = VisitPow_choice[THEN conjunct2, THEN conjunct2, THEN conjunct2, THEN conjunct2,
    THEN conjunct2, THEN conjunct1, THEN mp]
  note base_throws = VisitPow_choice[THEN conjunct2, THEN conjunct2, THEN conjunct2, THEN conjunct2,
    THEN conjunct2, THEN conjunct2, THEN conjunct1, THEN mp]
  note exponent_throws = VisitPow_choice[THEN conjunct2, THEN conjunct2, THEN conjunct2,
    THEN conjunct2, THEN conjunct2, THEN conjunct2, THEN conjunct2, THEN mp, OF conjI]
  have x: "Visit ex_library (E_Variable 0) ex_box2 = Inr (Iv 0 2)"
    by (simp add: ex_box2_def box_at_var_def box_at_def index_def)
  have c: "Visit ex_library (E_Constant (of_int n)) ex_box2 = Inr (Iv (of_int n) (of_int n))" for n
    by (simp add: iv_point_def)
  have a: "VisitPow ex_library (E_Variable 0) (E_Constant 2) ex_box2 = Inr (Iv 0 4)"
    using integer[of ex_library "E_Variable 0" ex_box2 "Iv 0 2" "E_Constant 2" 2] x c[of 2]
    by (simp add: ex_library_def int_lowest_def int_max_def)
  have b: "VisitPow ex_library (E_Variable 0) (E_Constant 3) ex_box2 = Inr (Iv 0 8)"
    using integer[of ex_library "E_Variable 0" ex_box2 "Iv 0 2" "E_Constant 3" 3] x c[of 3]
    by (simp add: ex_library_def int_lowest_def int_max_def)
  have hi: "VisitPow ex_library (E_Variable 0) (E_Constant 2147483647) ex_box2
     = Inr (iv_pow_int ex_library (Iv 0 2) 2147483647)"
    using integer[of ex_library "E_Variable 0" ex_box2 "Iv 0 2" "E_Constant 2147483647" 2147483647]
      x c[of 2147483647]
    by (simp add: int_lowest_def int_max_def)
  have lo: "VisitPow ex_library (E_Variable 0) (E_Constant (- 2147483648)) ex_box2
     = Inr (iv_pow_int ex_library (Iv 0 2) (- 2147483648))"
    using integer[of ex_library "E_Variable 0" ex_box2 "Iv 0 2" "E_Constant (- 2147483648)"
        "- 2147483648"] x c[of "- 2147483648"]
    by (simp add: int_lowest_def int_max_def)
  have out: "VisitPow ex_library (E_Variable 0) (E_Constant 2147483648) ex_box2
     = Inr (iv_pow_real ex_library (Iv 0 2) 2147483648)"
    using outside[of ex_library "E_Variable 0" ex_box2 "Iv 0 2" "E_Constant 2147483648" 2147483648]
      x c[of 2147483648]
    by (simp add: int_lowest_def int_max_def)
  have h: "Visit ex_library (E_Constant (1 / 2)) ex_box2 = Inr (Iv (1 / 2) (1 / 2))"
    by (simp add: iv_point_def)
  have nz: "(1 / 2 :: real) \<notin> \<int>"
  proof
    assume "(1 / 2 :: real) \<in> \<int>"
    then obtain k :: int where "(1 / 2 :: real) = of_int k" by (auto elim: Ints_cases)
    then have "real_of_int (2 * k) = real_of_int 1" by simp
    then have "2 * k = 1" by (simp only: of_int_eq_iff)
    then show False by presburger
  qed
  have d: "VisitPow ex_library (E_Variable 0) (E_Constant (1 / 2)) ex_box2
     = Inr (iv_pow_real ex_library (Iv 0 2) (1 / 2))"
    using fraction[of ex_library "E_Variable 0" ex_box2 "Iv 0 2" "E_Constant (1 / 2)" "1 / 2"]
      x h nz by simp
  have r: "Visit ex_library (E_RealConstant 1 2) ex_box2 = Inr (Iv 1 2)"
    by (simp add: mk_interval_def)
  have e: "VisitPow ex_library (E_Variable 0) (E_RealConstant 1 2) ex_box2
     = Inr (iv_pow ex_library (Iv 0 2) (Iv 1 2))"
    using interval[of ex_library "E_Variable 0" ex_box2 "Iv 0 2" "E_RealConstant 1 2" "Iv 1 2"]
      x r by simp
  have r0: "Visit ex_library (E_RealConstant 2 1) ex_box2 = Inr EMPTY_SET"
    by (simp add: mk_interval_def)
  have e0: "VisitPow ex_library (E_Variable 0) (E_RealConstant 2 1) ex_box2
     = Inr (iv_pow ex_library (Iv 0 2) EMPTY_SET)"
    using interval[of ex_library "E_Variable 0" ex_box2 "Iv 0 2" "E_RealConstant 2 1" EMPTY_SET]
      x r0 by simp
  have f: "VisitPow ex_library E_NaN (E_Constant 2) ex_box2 = Inl NaNDetected"
    by (rule base_throws) simp
  have g: "VisitPow ex_library (E_Variable 0) (E_IfThenElse 0 (E_Constant 1) (E_Constant 2)) ex_box2
     = Inl IfThenElseNotSupported"
    by (rule exponent_throws[OF x]) simp
  show ?thesis by (intro conjI a b hi lo out d e e0 f g)
qed

end
